theory Spec2Isabelle
  imports Complex_Main
begin

section \<open>Numbers\<close>

text \<open>
  The program is TypeScript; every \<^verbatim>\<open>number\<close> is modelled as a real. The model therefore
  describes the calls in which every number is finite, and it computes exactly where the
  program rounds or overflows. Where the source computes with \<^verbatim>\<open>undefined\<close>, \<^verbatim>\<open>NaN\<close> or an
  infinity (an empty gear list, a division by zero) the model says so with a result of its
  own instead of inventing a real value, and follows the engine speed through JavaScript's
  arithmetic on such values.
\<close>

section \<open>Terrain table (data/terrains.ts)\<close>

datatype TerrainType = asphalt | wet | dirt | sand | grass

record TerrainInfo =
  terrain_id :: TerrainType
  label :: string
  friction :: real
  rollingResistance :: real
  dustColor :: nat

fun TERRAINS :: "TerrainType \<Rightarrow> TerrainInfo" where
  "TERRAINS asphalt = \<lparr>terrain_id = asphalt, label = ''Asphalt'', friction = 1,
     rollingResistance = 0.018, dustColor = 0x1b1b1b\<rparr>"
| "TERRAINS wet = \<lparr>terrain_id = wet, label = ''Wet Asphalt'', friction = 0.78,
     rollingResistance = 0.022, dustColor = 0x222f3a\<rparr>"
| "TERRAINS dirt = \<lparr>terrain_id = dirt, label = ''Dirt'', friction = 0.7,
     rollingResistance = 0.03, dustColor = 0x7a4b2a\<rparr>"
| "TERRAINS sand = \<lparr>terrain_id = sand, label = ''Sand'', friction = 0.6,
     rollingResistance = 0.04, dustColor = 0xb08a5a\<rparr>"
| "TERRAINS grass = \<lparr>terrain_id = grass, label = ''Grass'', friction = 0.65,
     rollingResistance = 0.035, dustColor = 0x2f5f2c\<rparr>"

section \<open>Tire grip model (physics/TireModel.ts)\<close>

datatype TireCompound = street | sport | semi

record TireSetup =
  compound :: TireCompound
  pressureFrontPsi :: real
  pressureRearPsi :: real

record TireState =
  slipAngle :: real
  slipRatio :: real
  combinedSlip :: real
  gripFactor :: real

fun COMPOUND_GRIP :: "TireCompound \<Rightarrow> real" where
  "COMPOUND_GRIP street = 0.95"
| "COMPOUND_GRIP sport = 1.05"
| "COMPOUND_GRIP semi = 1.15"

fun COMPOUND_WET_PENALTY :: "TireCompound \<Rightarrow> real" where
  "COMPOUND_WET_PENALTY street = 0.85"
| "COMPOUND_WET_PENALTY sport = 0.78"
| "COMPOUND_WET_PENALTY semi = 0.7"

definition pressureGripFactor :: "real \<Rightarrow> real" where
  "pressureGripFactor psi =
     (let delta = min 6 (max (- 6) (psi - 33))
      in 1 - abs delta * 0.012)"

definition tireGripForTerrain :: "TireSetup \<Rightarrow> TerrainType \<Rightarrow> bool \<Rightarrow> real" where
  "tireGripForTerrain setup terrain isFront =
     (let base = friction (TERRAINS terrain);
          compoundGrip = COMPOUND_GRIP (compound setup);
          wetPenalty = (if terrain = wet then COMPOUND_WET_PENALTY (compound setup) else 1);
          psi = (if isFront then pressureFrontPsi setup else pressureRearPsi setup)
      in base * compoundGrip * wetPenalty * pressureGripFactor psi)"

definition frictionCircle :: "real \<Rightarrow> real \<Rightarrow> real" where
  "frictionCircle longitudinal lateral =
     (let slip = min 1 (sqrt (longitudinal * longitudinal + lateral * lateral))
      in 1 - slip * 0.4)"

section \<open>Car specification (data/cars.ts)\<close>

record Suspension =
  rideHeight :: real
  springRate :: real
  damping :: real
  antiRoll :: real

text \<open>
  The car's own gear ratios, final drive, tire setup and suspension are the defaults a tuning
  starts from; their names carry the prefix \<open>spec_\<close> to keep them apart from the fields of
  the tuning.
\<close>

record CarSpec =
  car_id :: string
  name :: string
  description :: string
  massKg :: real
  wheelbaseM :: real
  trackWidthM :: real
  turningCircleM :: real
  enginePowerKw :: real
  torqueCurve :: "(real \<times> real) list"
  spec_gearRatios :: "real list"
  spec_finalDrive :: real
  wheelRadiusM :: real
  spec_tireSetup :: TireSetup
  spec_suspension :: Suspension

section \<open>Vehicle dynamics (physics/Vehicle.ts)\<close>

record VehicleInput =
  throttle :: real
  brake :: real
  steer :: real
  handbrake :: real

text \<open>The objects \<^verbatim>\<open>{ x, z }\<close> of the source.\<close>

record Vec2 =
  coord_x :: real
  coord_z :: real

text \<open>
  The gear is only ever assigned 1, its own value plus or minus one, or an earlier value
  of itself, so it is an integer.
\<close>

record VehicleState =
  position :: Vec2
  velocity :: Vec2
  heading :: real
  yawRate :: real
  engineRpm :: real
  gear :: int
  wheelSpeed :: real
  speed :: real
  tireState :: TireState

record VehicleTuning =
  finalDrive :: real
  gearRatios :: "real list"
  brakeBias :: real
  brakeStrength :: real
  weightReduction :: real
  engineStage :: real
  suspension :: Suspension
  tireSetup :: TireSetup

text \<open>
  The class \<^verbatim>\<open>Vehicle\<close>: its public fields, and the private \<^verbatim>\<open>car\<close> and \<^verbatim>\<open>clutch\<close>. The
  private field \<^verbatim>\<open>revLimiter\<close> is initialised to 7200 and assigned nowhere, so it is a constant.
\<close>

record Vehicle =
  state :: VehicleState
  tuning :: VehicleTuning
  manualMode :: bool
  driftAssist :: real
  tractionAssist :: real
  maxSteerAngle :: real
  handbrakeGripLoss :: real
  terrain :: TerrainType
  car :: CarSpec
  clutch :: real

definition revLimiter :: real where
  "revLimiter = 7200"

definition initial_tireState :: TireState where
  "initial_tireState = \<lparr>slipAngle = 0, slipRatio = 0, combinedSlip = 0, gripFactor = 1\<rparr>"

definition initial_state :: VehicleState where
  "initial_state =
     \<lparr>position = \<lparr>coord_x = 0, coord_z = 0\<rparr>,
      velocity = \<lparr>coord_x = 0, coord_z = 0\<rparr>,
      heading = 0, yawRate = 0, engineRpm = 1200, gear = 1, wheelSpeed = 0, speed = 0,
      tireState = initial_tireState\<rparr>"

text \<open>The constructor, with the field initialisers of the class.\<close>

definition new_Vehicle :: "CarSpec \<Rightarrow> VehicleTuning \<Rightarrow> Vehicle" where
  "new_Vehicle c t =
     \<lparr>state = initial_state, tuning = t, manualMode = False, driftAssist = 0.7,
      tractionAssist = 0.6, maxSteerAngle = 0.55, handbrakeGripLoss = 0.55,
      terrain = asphalt, car = c, clutch = 0\<rparr>"

definition reset :: "real \<Rightarrow> real \<Rightarrow> Vehicle \<Rightarrow> Vehicle" where
  "reset positionX positionZ v =
     v\<lparr>state := (state v)
        \<lparr>position := \<lparr>coord_x = positionX, coord_z = positionZ\<rparr>,
         velocity := \<lparr>coord_x = 0, coord_z = 0\<rparr>,
         heading := 0, yawRate := 0, engineRpm := 1200, gear := 1,
         wheelSpeed := 0, speed := 0\<rparr>\<rparr>"

datatype js_error = TypeError

text \<open>
  \<^verbatim>\<open>torqueAtRpm\<close>: the loop over \<open>i = 1, ..., length - 1\<close> looks at the points \<open>i - 1\<close> and
  \<open>i\<close>; \<open>torque_scan\<close> carries the point \<open>i - 1\<close> and the points from \<open>i\<close> on. When no
  point is left, the point carried is the last one of the curve. Reading \<^verbatim>\<open>curve[0][0]\<close> of
  an empty curve throws.
\<close>

fun torque_scan :: "real \<Rightarrow> real \<times> real \<Rightarrow> (real \<times> real) list \<Rightarrow> real" where
  "torque_scan rpm (r1, t1) [] = t1"
| "torque_scan rpm (r1, t1) ((r2, t2) # rest) =
     (if rpm \<le> r2 then (let t = (rpm - r1) / (r2 - r1) in t1 + (t2 - t1) * t)
      else torque_scan rpm (r2, t2) rest)"

definition torqueAtRpm :: "Vehicle \<Rightarrow> real \<Rightarrow> js_error + real" where
  "torqueAtRpm v rpm =
     (case torqueCurve (car v) of
        [] \<Rightarrow> Inl TypeError
      | (r0, t0) # rest \<Rightarrow> if rpm \<le> r0 then Inr t0 else Inr (torque_scan rpm (r0, t0) rest))"

definition updateAutomaticGear :: "Vehicle \<Rightarrow> Vehicle" where
  "updateAutomaticGear v =
     (let rpm = engineRpm (state v);
          maxGear = int (length (gearRatios (tuning v)))
      in if rpm > 6500 \<and> gear (state v) < maxGear
         then v\<lparr>state := (state v)\<lparr>gear := gear (state v) + 1\<rparr>\<rparr>
         else if rpm < 2200 \<and> gear (state v) > 1
         then v\<lparr>state := (state v)\<lparr>gear := gear (state v) - 1\<rparr>\<rparr>
         else v)"

definition shiftUp :: "Vehicle \<Rightarrow> Vehicle" where
  "shiftUp v =
     (if \<not> manualMode v then v
      else let maxGear = int (length (gearRatios (tuning v)))
           in if gear (state v) < maxGear
              then v\<lparr>state := (state v)\<lparr>gear := gear (state v) + 1\<rparr>, clutch := 0.2\<rparr>
              else v)"

definition shiftDown :: "Vehicle \<Rightarrow> Vehicle" where
  "shiftDown v =
     (if \<not> manualMode v then v
      else if gear (state v) > 1
           then v\<lparr>state := (state v)\<lparr>gear := gear (state v) - 1\<rparr>, clutch := 0.2\<rparr>
           else v)"

subsection \<open>Library functions of JavaScript\<close>

definition hypot :: "real \<Rightarrow> real \<Rightarrow> real" where
  "hypot a b = sqrt (a * a + b * b)"

definition atan2 :: "real \<Rightarrow> real \<Rightarrow> real" where
  "atan2 b a =
     (if a > 0 then arctan (b / a)
      else if a < 0 then (if b \<ge> 0 then arctan (b / a) + pi else arctan (b / a) - pi)
      else if b > 0 then pi / 2
      else if b < 0 then - (pi / 2)
      else 0)"

text \<open>\<^verbatim>\<open>xs[i]\<close> is \<^verbatim>\<open>undefined\<close> outside the array; \<^verbatim>\<open>a ?? b\<close> is \<open>b\<close> when \<open>a\<close> is undefined.\<close>

definition array_get :: "'a list \<Rightarrow> int \<Rightarrow> 'a option" where
  "array_get xs i = (if 0 \<le> i \<and> i < int (length xs) then Some (xs ! nat i) else None)"

definition nullish :: "'a option \<Rightarrow> 'a option \<Rightarrow> 'a option" where
  "nullish a b = (case a of Some y \<Rightarrow> Some y | None \<Rightarrow> b)"

subsection \<open>Numbers of JavaScript that are not finite\<close>

text \<open>
  A number of JavaScript: a finite one, an infinity or \<^verbatim>\<open>NaN\<close>. The operations are those of
  the language on these values: \<^verbatim>\<open>NaN\<close> in gives \<^verbatim>\<open>NaN\<close> out, also for \<^verbatim>\<open>Math.max\<close> and
  \<^verbatim>\<open>Math.min\<close>; an infinity times zero and the sum of the two infinities are \<^verbatim>\<open>NaN\<close>. The
  reals have one zero, which stands for the positive zero of the program.
\<close>

datatype js_number = Num real | PosInf | NegInf | NaN

text \<open>\<^verbatim>\<open>a / b\<close> for finite \<open>a\<close> and \<open>b\<close>.\<close>

definition js_div :: "real \<Rightarrow> real \<Rightarrow> js_number" where
  "js_div a b =
     (if b \<noteq> 0 then Num (a / b)
      else if a > 0 then PosInf
      else if a < 0 then NegInf
      else NaN)"

fun js_mul :: "js_number \<Rightarrow> js_number \<Rightarrow> js_number" where
  "js_mul NaN b = NaN"
| "js_mul a NaN = NaN"
| "js_mul (Num a) (Num b) = Num (a * b)"
| "js_mul (Num a) PosInf = (if a > 0 then PosInf else if a < 0 then NegInf else NaN)"
| "js_mul (Num a) NegInf = (if a > 0 then NegInf else if a < 0 then PosInf else NaN)"
| "js_mul PosInf (Num b) = (if b > 0 then PosInf else if b < 0 then NegInf else NaN)"
| "js_mul NegInf (Num b) = (if b > 0 then NegInf else if b < 0 then PosInf else NaN)"
| "js_mul PosInf PosInf = PosInf"
| "js_mul PosInf NegInf = NegInf"
| "js_mul NegInf PosInf = NegInf"
| "js_mul NegInf NegInf = PosInf"

fun js_add :: "js_number \<Rightarrow> js_number \<Rightarrow> js_number" where
  "js_add NaN b = NaN"
| "js_add a NaN = NaN"
| "js_add (Num a) (Num b) = Num (a + b)"
| "js_add PosInf NegInf = NaN"
| "js_add NegInf PosInf = NaN"
| "js_add PosInf b = PosInf"
| "js_add a PosInf = PosInf"
| "js_add NegInf b = NegInf"
| "js_add a NegInf = NegInf"

text \<open>\<^verbatim>\<open>Math.max\<close> and \<^verbatim>\<open>Math.min\<close> of two numbers.\<close>

fun js_max :: "js_number \<Rightarrow> js_number \<Rightarrow> js_number" where
  "js_max NaN b = NaN"
| "js_max a NaN = NaN"
| "js_max PosInf b = PosInf"
| "js_max a PosInf = PosInf"
| "js_max NegInf b = b"
| "js_max a NegInf = a"
| "js_max (Num a) (Num b) = Num (max a b)"

fun js_min :: "js_number \<Rightarrow> js_number \<Rightarrow> js_number" where
  "js_min NaN b = NaN"
| "js_min a NaN = NaN"
| "js_min NegInf b = NegInf"
| "js_min a NegInf = NegInf"
| "js_min PosInf b = b"
| "js_min a PosInf = a"
| "js_min (Num a) (Num b) = Num (min a b)"

text \<open>\<open>js_between lo hi r\<close>: \<open>r\<close> is a number with \<open>lo \<le> r\<close> and \<open>r \<le> hi\<close>.\<close>

definition js_between :: "real \<Rightarrow> real \<Rightarrow> js_number \<Rightarrow> bool" where
  "js_between lo hi r = (case r of Num a \<Rightarrow> lo \<le> a \<and> a \<le> hi | PosInf \<Rightarrow> False
                          | NegInf \<Rightarrow> False | NaN \<Rightarrow> False)"

subsection \<open>One simulation step\<close>

text \<open>
  The engine speed that lines 152 and 155 of \<^verbatim>\<open>Vehicle.ts\<close> write when the gear ratio is
  \<^verbatim>\<open>undefined\<close> or the wheel radius is zero: the same expressions over the numbers of
  JavaScript. \<open>driveRatio\<close> is \<^verbatim>\<open>NaN\<close> when there is no gear ratio
  (\<^verbatim>\<open>undefined * finalDrive\<close>).
\<close>

definition engineRpm_js :: "real \<Rightarrow> real \<Rightarrow> js_number \<Rightarrow> js_number" where
  "engineRpm_js longitudinalSpeed wheelRadius driveRatio =
     (let wheelRpm =
            js_max (Num 0) (js_mul (js_div longitudinalSpeed (2 * pi * wheelRadius)) (Num 60))
      in js_max (Num 1000)
           (js_min (Num revLimiter) (js_add (js_mul wheelRpm driveRatio) (Num 1000))))"

text \<open>
  How a call of \<^verbatim>\<open>update\<close> ends. \<open>Returns\<close> and \<open>Throws\<close> carry the vehicle as the call
  leaves it. \<open>NonFinite r\<close> stands for the calls in which the source computes with
  \<^verbatim>\<open>undefined\<close>, \<^verbatim>\<open>NaN\<close> or an infinity (no gear ratio at all, a division by zero), so that
  a vehicle of the model cannot hold what they leave; \<open>r\<close> is the value they leave in
  \<^verbatim>\<open>state.engineRpm\<close>. Such a call returns, or throws when the torque curve is empty.
\<close>

datatype completion = Returns Vehicle | Throws js_error Vehicle | NonFinite js_number

definition update :: "real \<Rightarrow> VehicleInput \<Rightarrow> Vehicle \<Rightarrow> completion" where
  "update dt input v =
     (let totalMass = massKg (car v) * (1 - weightReduction (tuning v) * 0.08);
          steerInput = max (- 1) (min 1 (steer input));
          steerAngle = steerInput * maxSteerAngle v;
          speed0 = hypot (coord_x (velocity (state v))) (coord_z (velocity (state v)));
          forwardX = sin (heading (state v));
          forwardZ = cos (heading (state v));
          sideX = sin (heading (state v) + pi / 2);
          sideZ = cos (heading (state v) + pi / 2);
          longitudinalSpeed =
            coord_x (velocity (state v)) * forwardX + coord_z (velocity (state v)) * forwardZ;
          lateralSpeed =
            coord_x (velocity (state v)) * sideX + coord_z (velocity (state v)) * sideZ;
          wheelRadius = wheelRadiusM (car v)
      in case nullish (array_get (gearRatios (tuning v)) (gear (state v) - 1))
                      (array_get (gearRatios (tuning v)) 0) of
           None \<Rightarrow> NonFinite (engineRpm_js longitudinalSpeed wheelRadius NaN)
         | Some gearRatio \<Rightarrow>
      if wheelRadius = 0
      then NonFinite (engineRpm_js longitudinalSpeed wheelRadius
                        (Num (gearRatio * finalDrive (tuning v))))
      else
      let driveRatio = gearRatio * finalDrive (tuning v);
          wheelRpm = max 0 (longitudinalSpeed / (2 * pi * wheelRadius) * 60);
          v1 = v\<lparr>state := (state v)\<lparr>wheelSpeed := wheelRpm\<rparr>\<rparr>;
          v2 = v1\<lparr>state := (state v1)
                 \<lparr>engineRpm := max 1000 (min revLimiter (wheelRpm * driveRatio + 1000))\<rparr>\<rparr>;
          v3 = (if \<not> manualMode v2 then updateAutomaticGear v2 else v2)
      in (case torqueAtRpm v3 (engineRpm (state v3)) of
           Inl e \<Rightarrow> Throws e v3
         | Inr torque \<Rightarrow>
      let engineTorque = torque * (1 + engineStage (tuning v3) * 0.12);
          driveTorque = engineTorque * driveRatio * (1 - clutch v3);
          throttleForce = driveTorque / wheelRadius * throttle input;
          brakeForce = brakeStrength (tuning v3) * brake input * 12000;
          rolling = rollingResistance (TERRAINS (terrain v3))
                      * longitudinalSpeed * longitudinalSpeed * 0.5;
          wt_longitudinal =
            springRate (suspension (tuning v3)) * (throttleForce - brakeForce) * 0.00004;
          wt_lateral = antiRoll (suspension (tuning v3)) * lateralSpeed * 0.002;
          frontGrip = tireGripForTerrain (tireSetup (tuning v3)) (terrain v3) True
                        * (1 - wt_longitudinal + wt_lateral * 0.2);
          rearGrip = tireGripForTerrain (tireSetup (tuning v3)) (terrain v3) False
                       * (1 + wt_longitudinal - wt_lateral * 0.2);
          gripLoss = (if handbrake input > 0 then handbrakeGripLoss v3 else 1);
          rearGripAdjusted = rearGrip * gripLoss
      in if wheelbaseM (car v3) + 0.2 = 0 then NonFinite (Num (engineRpm (state v3)))
      else
      let yawDesired = longitudinalSpeed / (wheelbaseM (car v3) + 0.2) * tan steerAngle;
          yawError = yawDesired - yawRate (state v3);
          yawAccel = yawError * (2.2 - damping (suspension (tuning v3))) * 3;
          lateralForce = - lateralSpeed * 4 * rearGripAdjusted;
          longitudinalForce = throttleForce - brakeForce - rolling;
          slipAngle' = atan2 lateralSpeed (abs longitudinalSpeed + 0.5);
          slipRatio' = (throttleForce - brakeForce) / max 4000 (totalMass * 3);
          combinedSlip' = min 1 (abs slipAngle' + abs slipRatio');
          circle = frictionCircle (abs slipRatio') (abs slipAngle');
          gripFactor' = circle * (rearGripAdjusted + frontGrip) * 0.5;
          driftFactor = (if combinedSlip' > 0.55 \<or> handbrake input > 0.2 then 0.85 else 1);
          yawClamp = 1 + (1 - driftAssist v3) * 1.2;
          yawRate1 = yawRate (state v3) + yawAccel * dt;
          yawRate2 = max (- yawClamp) (min yawClamp yawRate1)
      in if totalMass = 0 then NonFinite (Num (engineRpm (state v3)))
      else
      let accelLong = longitudinalForce * gripFactor' / totalMass;
          accelLat = lateralForce * frontGrip * driftFactor / totalMass;
          velX1 = coord_x (velocity (state v3)) + (forwardX * accelLong + sideX * accelLat) * dt;
          velZ1 = coord_z (velocity (state v3)) + (forwardZ * accelLong + sideZ * accelLat) * dt;
          heading' = heading (state v3) + yawRate2 * dt;
          traction = 1 - tractionAssist v3 * max 0 (combinedSlip' - 0.4);
          velX2 = velX1 * traction;
          velZ2 = velZ1 * traction;
          posX = coord_x (position (state v3)) + velX2 * dt;
          posZ = coord_z (position (state v3)) + velZ2 * dt
      in Returns (v3\<lparr>state := (state v3)
                   \<lparr>yawRate := yawRate2,
                    velocity := \<lparr>coord_x = velX2, coord_z = velZ2\<rparr>,
                    heading := heading',
                    position := \<lparr>coord_x = posX, coord_z = posZ\<rparr>,
                    speed := hypot velX2 velZ2,
                    tireState := \<lparr>slipAngle = slipAngle', slipRatio = slipRatio',
                                   combinedSlip = combinedSlip', gripFactor = gripFactor'\<rparr>\<rparr>,
                  clutch := max 0 (clutch v3 - dt * 2)\<rparr>)))"

subsection \<open>Sequences of calls\<close>

text \<open>
  The calls the game makes on a vehicle during a race. A sequence of calls stops at the
  first call that does not return.
\<close>

datatype call = Update real VehicleInput | ShiftUp | ShiftDown

fun perform :: "call \<Rightarrow> Vehicle \<Rightarrow> completion" where
  "perform (Update dt input) v = update dt input v"
| "perform ShiftUp v = Returns (shiftUp v)"
| "perform ShiftDown v = Returns (shiftDown v)"

fun run :: "call list \<Rightarrow> Vehicle \<Rightarrow> completion" where
  "run [] v = Returns v"
| "run (c # cs) v =
     (case perform c v of
        Returns v' \<Rightarrow> run cs v'
      | Throws e v' \<Rightarrow> Throws e v'
      | NonFinite r \<Rightarrow> NonFinite r)"

text \<open>The vehicle a call leaves behind, when the model describes it.\<close>

definition vehicle_of :: "completion \<Rightarrow> Vehicle option" where
  "vehicle_of c = (case c of Returns v \<Rightarrow> Some v | Throws e v \<Rightarrow> Some v | NonFinite r \<Rightarrow> None)"

text \<open>
  \<open>post R T c\<close>: \<open>R\<close> holds of the vehicle when the call returned, \<open>T\<close> when it threw.
  \<open>returns c\<close>: the call returned.
\<close>

definition post :: "(Vehicle \<Rightarrow> bool) \<Rightarrow> (Vehicle \<Rightarrow> bool) \<Rightarrow> completion \<Rightarrow> bool" where
  "post R T c = (case c of Returns v \<Rightarrow> R v | Throws e v \<Rightarrow> T v | NonFinite r \<Rightarrow> True)"

definition returns :: "completion \<Rightarrow> bool" where
  "returns c = (case c of Returns v \<Rightarrow> True | Throws e v \<Rightarrow> False | NonFinite r \<Rightarrow> False)"

text \<open>
  The value of \<^verbatim>\<open>state.engineRpm\<close> after a call, and \<open>engine_speed Q c\<close>: it satisfies \<open>Q\<close>.
\<close>

definition engineRpm_after :: "completion \<Rightarrow> js_number" where
  "engineRpm_after c =
     (case c of Returns v \<Rightarrow> Num (engineRpm (state v))
              | Throws e v \<Rightarrow> Num (engineRpm (state v))
              | NonFinite r \<Rightarrow> r)"

definition engine_speed :: "(js_number \<Rightarrow> bool) \<Rightarrow> completion \<Rightarrow> bool" where
  "engine_speed Q c = Q (engineRpm_after c)"

definition gear_in_range :: "Vehicle \<Rightarrow> bool" where
  "gear_in_range v \<longleftrightarrow>
     1 \<le> gear (state v) \<and> gear (state v) \<le> int (length (gearRatios (tuning v)))"

text \<open>
  The clamping the specification describes: every component of the input brought into its
  documented range. It is not a function of the program.
\<close>

definition clamp :: "real \<Rightarrow> real \<Rightarrow> real \<Rightarrow> real" where
  "clamp lo hi a = max lo (min hi a)"

definition spec_clampInput :: "VehicleInput \<Rightarrow> VehicleInput" where
  "spec_clampInput input =
     \<lparr>throttle = clamp 0 1 (throttle input), brake = clamp 0 1 (brake input),
      steer = clamp (- 1) 1 (steer input), handbrake = clamp 0 1 (handbrake input)\<rparr>"

subsection \<open>The cars of the game (data/cars.ts) and the default tuning (game/Game.ts)\<close>

definition m3 :: CarSpec where
  "m3 =
     \<lparr>car_id = ''m3'', name = ''M3 Coupe'',
      description = ''Front-engine sport coupe. Nimble, eager to rotate.'',
      massKg = 1720, wheelbaseM = 2.731, trackWidthM = 1.55, turningCircleM = 11.0,
      enginePowerKw = 317,
      torqueCurve = [(1000, 240), (2000, 330), (3500, 410), (5500, 500), (7000, 430)],
      spec_gearRatios = [3.8, 2.4, 1.7, 1.3, 1.0, 0.86],
      spec_finalDrive = 3.42, wheelRadiusM = 0.33,
      spec_tireSetup = \<lparr>compound = sport, pressureFrontPsi = 34, pressureRearPsi = 33\<rparr>,
      spec_suspension = \<lparr>rideHeight = 0.12, springRate = 0.7, damping = 0.6, antiRoll = 0.6\<rparr>\<rparr>"

definition carnival :: CarSpec where
  "carnival =
     \<lparr>car_id = ''carnival'', name = ''Kia Carnival'',
      description = ''Heavy minivan. Smooth but understeers, longer braking.'',
      massKg = 1985, wheelbaseM = 3.09, trackWidthM = 1.68, turningCircleM = 11.75,
      enginePowerKw = 216,
      torqueCurve = [(1000, 250), (2000, 320), (3500, 360), (5000, 380), (6000, 310)],
      spec_gearRatios = [3.6, 2.1, 1.5, 1.15, 0.85],
      spec_finalDrive = 3.6, wheelRadiusM = 0.34,
      spec_tireSetup = \<lparr>compound = street, pressureFrontPsi = 36, pressureRearPsi = 36\<rparr>,
      spec_suspension = \<lparr>rideHeight = 0.18, springRate = 0.5, damping = 0.5, antiRoll = 0.4\<rparr>\<rparr>"

definition CARS :: "CarSpec list" where
  "CARS = [m3, carnival]"

text \<open>\<^verbatim>\<open>loadTuning\<close> when nothing is saved for the car.\<close>

definition defaultTuning :: "CarSpec \<Rightarrow> VehicleTuning" where
  "defaultTuning c =
     \<lparr>finalDrive = spec_finalDrive c, gearRatios = spec_gearRatios c, brakeBias = 0.6,
      brakeStrength = 1, weightReduction = 0, engineStage = 0,
      suspension = spec_suspension c, tireSetup = spec_tireSetup c\<rparr>"

subsection \<open>Predicates on a step\<close>

text \<open>
  \<open>same_setup v v'\<close>: everything but the state and the clutch is as in \<open>v\<close>.
  \<open>shifted v v'\<close>: the gear of \<open>v'\<close> is the gear of \<open>v\<close> after at most one automatic shift,
  decided on the engine speed of \<open>v'\<close>.
\<close>

definition same_setup :: "Vehicle \<Rightarrow> Vehicle \<Rightarrow> bool" where
  "same_setup v v' \<longleftrightarrow>
     car v' = car v \<and> tuning v' = tuning v \<and> terrain v' = terrain v
     \<and> manualMode v' = manualMode v \<and> driftAssist v' = driftAssist v
     \<and> tractionAssist v' = tractionAssist v \<and> maxSteerAngle v' = maxSteerAngle v
     \<and> handbrakeGripLoss v' = handbrakeGripLoss v"

definition shifted :: "Vehicle \<Rightarrow> Vehicle \<Rightarrow> bool" where
  "shifted v v' \<longleftrightarrow>
     gear (state v') =
       (if manualMode v then gear (state v)
        else if engineRpm (state v') > 6500
                \<and> gear (state v) < int (length (gearRatios (tuning v)))
        then gear (state v) + 1
        else if engineRpm (state v') < 2200 \<and> gear (state v) > 1 then gear (state v) - 1
        else gear (state v))"

text \<open>
  What keeps a step among the finite numbers: a gear ratio to read, and a wheel radius, a
  wheelbase and a mass that make no divisor zero.
\<close>

definition finite_step :: "Vehicle \<Rightarrow> bool" where
  "finite_step v \<longleftrightarrow>
     gearRatios (tuning v) \<noteq> [] \<and> wheelRadiusM (car v) \<noteq> 0
     \<and> wheelbaseM (car v) + 0.2 \<noteq> 0
     \<and> massKg (car v) * (1 - weightReduction (tuning v) * 0.08) \<noteq> 0"

section \<open>Route graph and sampler (tracks/RouteGraph.ts)\<close>

text \<open>
  The fields \<^verbatim>\<open>id\<close>, \<^verbatim>\<open>length\<close> and \<^verbatim>\<open>terrain\<close> of a segment are \<open>segment_id\<close>,
  \<open>segment_length\<close> and \<open>segment_terrain\<close>; the \<^verbatim>\<open>id\<close> of a node is \<open>node_id\<close>. An optional
  field is an option: \<open>None\<close> is the absent field.
\<close>

record RouteSegment =
  segment_id :: string
  segment_length :: real
  curvature :: real
  slope :: real
  width :: real
  scenery :: real
  segment_terrain :: TerrainType

record RouteNode =
  node_id :: string
  stage :: nat
  segment :: RouteSegment
  left :: "string option"
  right :: "string option"
  destination :: "string option"

text \<open>The fifteen nodes of the object literal \<^verbatim>\<open>ROUTE_GRAPH\<close>, in the order written.\<close>

definition ROUTE_GRAPH_literal :: "(string \<times> RouteNode) list" where
  "ROUTE_GRAPH_literal = [
  (''s1'',
     \<lparr>node_id = ''s1'', stage = 1,
      segment = \<lparr>segment_id = ''s1'', segment_length = 900, curvature = 0.001,
        slope = 0.002, width = 10, scenery = 0.7, segment_terrain = asphalt\<rparr>,
      left = Some ''s2l'', right = Some ''s2r'', destination = None\<rparr>),
  (''s2l'',
     \<lparr>node_id = ''s2l'', stage = 2,
      segment = \<lparr>segment_id = ''s2l'', segment_length = 850, curvature = - 0.0022,
        slope = 0.004, width = 9, scenery = 0.9, segment_terrain = wet\<rparr>,
      left = Some ''s3ll'', right = Some ''s3lr'', destination = None\<rparr>),
  (''s2r'',
     \<lparr>node_id = ''s2r'', stage = 2,
      segment = \<lparr>segment_id = ''s2r'', segment_length = 800, curvature = 0.0026,
        slope = - 0.003, width = 9, scenery = 0.8, segment_terrain = dirt\<rparr>,
      left = Some ''s3rl'', right = Some ''s3rr'', destination = None\<rparr>),
  (''s3ll'',
     \<lparr>node_id = ''s3ll'', stage = 3,
      segment = \<lparr>segment_id = ''s3ll'', segment_length = 780, curvature = 0.0032,
        slope = 0.006, width = 8.5, scenery = 0.95, segment_terrain = wet\<rparr>,
      left = Some ''s4lll'', right = Some ''s4llr'', destination = None\<rparr>),
  (''s3lr'',
     \<lparr>node_id = ''s3lr'', stage = 3,
      segment = \<lparr>segment_id = ''s3lr'', segment_length = 760, curvature = - 0.0034,
        slope = 0.001, width = 8.8, scenery = 0.85, segment_terrain = asphalt\<rparr>,
      left = Some ''s4lrl'', right = Some ''s4lrr'', destination = None\<rparr>),
  (''s3rl'',
     \<lparr>node_id = ''s3rl'', stage = 3,
      segment = \<lparr>segment_id = ''s3rl'', segment_length = 750, curvature = 0.003,
        slope = - 0.004, width = 9, scenery = 0.7, segment_terrain = dirt\<rparr>,
      left = Some ''s4rll'', right = Some ''s4rlr'', destination = None\<rparr>),
  (''s3rr'',
     \<lparr>node_id = ''s3rr'', stage = 3,
      segment = \<lparr>segment_id = ''s3rr'', segment_length = 770, curvature = - 0.0028,
        slope = 0.002, width = 9.2, scenery = 0.6, segment_terrain = sand\<rparr>,
      left = Some ''s4rrl'', right = Some ''s4rrr'', destination = None\<rparr>),
  (''s4lll'',
     \<lparr>node_id = ''s4lll'', stage = 4,
      segment = \<lparr>segment_id = ''s4lll'', segment_length = 720, curvature = 0.0035,
        slope = 0.006, width = 8, scenery = 1, segment_terrain = wet\<rparr>,
      left = Some ''s5llll'', right = Some ''s5lllr'', destination = None\<rparr>),
  (''s4llr'',
     \<lparr>node_id = ''s4llr'', stage = 4,
      segment = \<lparr>segment_id = ''s4llr'', segment_length = 710, curvature = - 0.0036,
        slope = 0.004, width = 8.2, scenery = 0.9, segment_terrain = wet\<rparr>,
      left = Some ''s5llrl'', right = Some ''s5llrr'', destination = None\<rparr>),
  (''s4lrl'',
     \<lparr>node_id = ''s4lrl'', stage = 4,
      segment = \<lparr>segment_id = ''s4lrl'', segment_length = 700, curvature = 0.0032,
        slope = - 0.003, width = 8.3, scenery = 0.8, segment_terrain = asphalt\<rparr>,
      left = Some ''s5lrll'', right = Some ''s5lrlr'', destination = None\<rparr>),
  (''s4lrr'',
     \<lparr>node_id = ''s4lrr'', stage = 4,
      segment = \<lparr>segment_id = ''s4lrr'', segment_length = 700, curvature = - 0.0035,
        slope = - 0.002, width = 8.4, scenery = 0.7, segment_terrain = asphalt\<rparr>,
      left = Some ''s5lrrl'', right = Some ''s5lrrr'', destination = None\<rparr>),
  (''s4rll'',
     \<lparr>node_id = ''s4rll'', stage = 4,
      segment = \<lparr>segment_id = ''s4rll'', segment_length = 690, curvature = 0.003,
        slope = - 0.004, width = 8.6, scenery = 0.6, segment_terrain = dirt\<rparr>,
      left = Some ''s5rlll'', right = Some ''s5rllr'', destination = None\<rparr>),
  (''s4rlr'',
     \<lparr>node_id = ''s4rlr'', stage = 4,
      segment = \<lparr>segment_id = ''s4rlr'', segment_length = 680, curvature = - 0.0032,
        slope = - 0.003, width = 8.6, scenery = 0.6, segment_terrain = dirt\<rparr>,
      left = Some ''s5rlrl'', right = Some ''s5rlrr'', destination = None\<rparr>),
  (''s4rrl'',
     \<lparr>node_id = ''s4rrl'', stage = 4,
      segment = \<lparr>segment_id = ''s4rrl'', segment_length = 670, curvature = 0.0028,
        slope = 0.002, width = 8.8, scenery = 0.5, segment_terrain = sand\<rparr>,
      left = Some ''s5rrll'', right = Some ''s5rrlr'', destination = None\<rparr>),
  (''s4rrr'',
     \<lparr>node_id = ''s4rrr'', stage = 4,
      segment = \<lparr>segment_id = ''s4rrr'', segment_length = 660, curvature = - 0.003,
        slope = 0.003, width = 8.8, scenery = 0.5, segment_terrain = sand\<rparr>,
      left = Some ''s5rrrl'', right = Some ''s5rrrr'', destination = None\<rparr>)]"

definition DESTINATIONS :: "string list" where
  "DESTINATIONS = [''A'', ''B'', ''C'', ''D'', ''E'']"

definition stage5Nodes :: "string list" where
  "stage5Nodes =
    [
     ''s5llll'', ''s5lllr'', ''s5llrl'', ''s5llrr'',
     ''s5lrll'', ''s5lrlr'', ''s5lrrl'', ''s5lrrr'',
     ''s5rlll'', ''s5rllr'', ''s5rlrl'', ''s5rlrr'',
     ''s5rrll'', ''s5rrlr'', ''s5rrrl'', ''s5rrrr'']"

text \<open>The node that the callback of \<^verbatim>\<open>stage5Nodes.forEach\<close> stores under \<open>ident\<close>.\<close>

definition stage5_node :: "string \<Rightarrow> nat \<Rightarrow> RouteNode" where
  "stage5_node ident index =
     \<lparr>node_id = ident, stage = 5,
      segment = \<lparr>segment_id = ident,
        segment_length = 650 - real (index mod 4) * 15,
        curvature = (if index mod 2 = 0 then 1 else - 1) * (0.0025 + real (index mod 3) * 0.0004),
        slope = (real (index mod 3) - 1) * 0.002,
        width = 8.2, scenery = 0.4,
        segment_terrain = (if index mod 2 = 0 then grass else asphalt)\<rparr>,
      left = None, right = None,
      destination = Some (DESTINATIONS ! (index mod length DESTINATIONS))\<rparr>"

text \<open>
  \<^verbatim>\<open>ROUTE_GRAPH\<close> once the module is loaded: the literal, then one assignment for each
  stage-5 identifier with its index.
\<close>

definition ROUTE_GRAPH :: "string \<rightharpoonup> RouteNode" where
  "ROUTE_GRAPH =
     foldl (\<lambda>g (index, ident). g(ident \<mapsto> stage5_node ident index))
       (map_of ROUTE_GRAPH_literal) (enumerate 0 stage5Nodes)"

record RoutePath =
  nodes :: "RouteNode list"
  totalLength :: real
  path_destination :: string

record Point3 =
  point_x :: real
  point_y :: real
  point_z :: real

record RouteSamples =
  points :: "Point3 list"
  widths :: "real list"
  terrainTypes :: "TerrainType list"
  distances :: "real list"

text \<open>A string, or an optional string, in a condition: absent and empty count as false.\<close>

definition truthy :: "string option \<Rightarrow> bool" where
  "truthy s = (case s of None \<Rightarrow> False | Some t \<Rightarrow> t \<noteq> [])"

text \<open>
  The loop of \<^verbatim>\<open>buildRoutePath\<close>, with its variables \<^verbatim>\<open>currentId\<close>, \<^verbatim>\<open>nodes\<close> and \<^verbatim>\<open>total\<close>
  (here \<open>ns\<close> and \<open>tot\<close>).
  Nothing bounds the number of rounds, so the result is an option: \<open>None\<close> is a loop that
  never ends. An identifier that is not a key of the graph gives \<^verbatim>\<open>undefined\<close>, or a
  property that every object inherits, which has no segment: reading the length of its
  segment throws either way.
\<close>

partial_function (option) buildRoutePath_loop ::
  "string option \<Rightarrow> RouteNode list \<Rightarrow> real \<Rightarrow> (js_error + RoutePath) option" where
  "buildRoutePath_loop currentId ns tot =
     (if \<not> truthy currentId
      then Some (Inr \<lparr>nodes = ns, totalLength = tot, path_destination = []\<rparr>)
      else case ROUTE_GRAPH (the currentId) of
             None \<Rightarrow> Some (Inl TypeError)
           | Some node \<Rightarrow>
               let ns' = ns @ [node];
                   tot' = tot + segment_length (segment node)
               in if truthy (destination node)
                  then Some (Inr \<lparr>nodes = ns', totalLength = tot',
                                  path_destination = the (destination node)\<rparr>)
                  else buildRoutePath_loop (nullish (left node) (right node)) ns' tot')"

definition buildRoutePath :: "string \<Rightarrow> (js_error + RoutePath) option" where
  "buildRoutePath startId = buildRoutePath_loop (Some startId) [] 0"

text \<open>
  \<^verbatim>\<open>buildRouteSamples\<close>: the variables the callback closes over, and the four arrays.
\<close>

record sampling =
  cur_x :: real
  cur_y :: real
  cur_z :: real
  cur_heading :: real
  cur_total :: real
  samples :: RouteSamples

text \<open>The body of the inner loop.\<close>

definition sample_step :: "RouteNode \<Rightarrow> sampling \<Rightarrow> sampling" where
  "sample_step node s =
     (let heading' = cur_heading s + curvature (segment node) * 20;
          x' = cur_x s + sin heading' * 20;
          z' = cur_z s + cos heading' * 20;
          y' = cur_y s + slope (segment node) * 20;
          total' = cur_total s + 20
      in \<lparr>cur_x = x', cur_y = y', cur_z = z', cur_heading = heading', cur_total = total',
          samples =
            \<lparr>points = points (samples s) @ [\<lparr>point_x = x', point_y = y', point_z = z'\<rparr>],
             widths = widths (samples s) @ [width (segment node)],
             terrainTypes = terrainTypes (samples s) @ [segment_terrain (segment node)],
             distances = distances (samples s) @ [total']\<rparr>\<rparr>)"

text \<open>The inner loop \<^verbatim>\<open>for (let i = 0; i < steps; i += 1)\<close>, from \<open>i\<close> on.\<close>

function sample_for :: "int \<Rightarrow> int \<Rightarrow> RouteNode \<Rightarrow> sampling \<Rightarrow> sampling" where
  "sample_for i steps node s =
     (if i < steps then sample_for (i + 1) steps node (sample_step node s) else s)"
  by pat_completeness auto
termination
  by (relation "measure (\<lambda>(i, steps, node, s). nat (steps - i))") auto

definition sample_node :: "sampling \<Rightarrow> RouteNode \<Rightarrow> sampling" where
  "sample_node s node =
     (let steps = \<lfloor>segment_length (segment node) / 20\<rfloor> in sample_for 0 steps node s)"

definition buildRouteSamples :: "RouteNode list \<Rightarrow> RouteSamples" where
  "buildRouteSamples ns =
     samples (foldl sample_node
       \<lparr>cur_x = 0, cur_y = 0, cur_z = 0, cur_heading = 0, cur_total = 0,
        samples = \<lparr>points = [], widths = [], terrainTypes = [], distances = []\<rparr>\<rparr> ns)"

text \<open>
  The number of samples a node list gives, and the final distance as the specification
  words it: the sum of \<open>floor (length / 20) * 20\<close> over the nodes.
\<close>

definition sample_count :: "RouteNode list \<Rightarrow> nat" where
  "sample_count ns = (\<Sum>n\<leftarrow>ns. nat \<lfloor>segment_length (segment n) / 20\<rfloor>)"

definition spec_final_distance :: "RouteNode list \<Rightarrow> real" where
  "spec_final_distance ns = (\<Sum>n\<leftarrow>ns. real_of_int \<lfloor>segment_length (segment n) / 20\<rfloor> * 20)"

text \<open>A node with a segment of the given length, straight and level, for examples.\<close>

definition straight_node :: "real \<Rightarrow> RouteNode" where
  "straight_node len =
     \<lparr>node_id = ''n'', stage = 1,
      segment = \<lparr>segment_id = ''n'', segment_length = len, curvature = 0, slope = 0,
        width = 8, scenery = 0, segment_terrain = asphalt\<rparr>,
      left = None, right = None, destination = None\<rparr>"

text \<open>
  The running total and the distances emitted so far belong together: the distance at
  index \<open>k\<close> is \<open>20 * (k + 1)\<close>, and the total is 20 times their number.
\<close>

definition distances_tracked :: "sampling \<Rightarrow> bool" where
  "distances_tracked s \<longleftrightarrow>
     distances (samples s) = map (\<lambda>k. 20 * real (Suc k)) [0..<length (distances (samples s))]
     \<and> cur_total s = 20 * real (length (distances (samples s)))"

section \<open>Properties of the tire grip model\<close>

text \<open>
  C7. \<open>pressureGripFactor 33\<close> is exactly 1; for every pressure the factor is
  \<open>1 - 0.012 * min 6 |psi - 33|\<close>; hence the factor at 39 psi and at 27 psi is 0.928, it is
  symmetric about 33, and it is 0.928 at every pressure of at most 27 or at least 39.
\<close>

theorem pressureGripFactor_spec:
  "pressureGripFactor 33 = 1
   \<and> pressureGripFactor psi = 1 - 0.012 * min 6 \<bar>psi - 33\<bar>
   \<and> pressureGripFactor 39 = 0.928
   \<and> pressureGripFactor 27 = 0.928
   \<and> pressureGripFactor (33 + d) = pressureGripFactor (33 - d)
   \<and> pressureGripFactor (min 27 psi) = 0.928
   \<and> pressureGripFactor (max 39 psi) = 0.928"
  by (auto simp: pressureGripFactor_def Let_def min_def max_def abs_if)

section \<open>Reasoning about one simulation step\<close>

text \<open>
  \<open>post\<close> and \<open>returns\<close> move through the \<open>let\<close>, \<open>if\<close> and \<open>case\<close> of \<open>update\<close> down
  to the three ways a call ends, so that a property of the vehicle left behind is proved
  without unfolding the whole step.
\<close>

lemma post_simps:
  "post R T (Returns v) = R v"
  "post R T (Throws e v) = T v"
  "post R T (NonFinite r) = True"
  by (simp_all add: post_def)

lemma post_Let: "post R T (Let t f) = (let x = t in post R T (f x))"
  by simp

lemma post_if: "post R T (if c then a else b) = (if c then post R T a else post R T b)"
  by simp

lemma post_case_option:
  "post R T (case_option a f opt) =
     (case opt of None \<Rightarrow> post R T a | Some y \<Rightarrow> post R T (f y))"
  by (simp split: option.split)

lemma post_case_sum:
  "post R T (case_sum f g s) =
     (case s of Inl a \<Rightarrow> post R T (f a) | Inr b \<Rightarrow> post R T (g b))"
  by (simp split: sum.split)

lemmas post_push = post_simps post_Let post_if post_case_option post_case_sum

lemma post_vehicle_of: "post P P c \<Longrightarrow> vehicle_of c = Some v' \<Longrightarrow> P v'"
  by (cases c) (simp_all add: post_def vehicle_of_def)

lemma post_Returns: "post R T c \<Longrightarrow> c = Returns v' \<Longrightarrow> R v'"
  by (simp add: post_def)

lemma returns_simps:
  "returns (Returns v) = True"
  "returns (Throws e v) = False"
  "returns (NonFinite r) = False"
  by (simp_all add: returns_def)

lemma returns_Let: "returns (Let t f) = (let x = t in returns (f x))"
  by simp

lemma returns_if: "returns (if c then a else b) = (if c then returns a else returns b)"
  by simp

lemma returns_case_option:
  "returns (case_option a f opt) = (case opt of None \<Rightarrow> returns a | Some y \<Rightarrow> returns (f y))"
  by (simp split: option.split)

lemma returns_case_sum:
  "returns (case_sum f g s) = (case s of Inl a \<Rightarrow> returns (f a) | Inr b \<Rightarrow> returns (g b))"
  by (simp split: sum.split)

lemmas returns_push = returns_simps returns_Let returns_if returns_case_option returns_case_sum

lemma returns_Returns: "returns c \<Longrightarrow> \<exists>v'. c = Returns v'"
  by (cases c) (simp_all add: returns_def)

lemma returns_vehicle_of: "returns c \<Longrightarrow> \<exists>v'. vehicle_of c = Some v'"
  by (cases c) (simp_all add: returns_def vehicle_of_def)

lemma engine_speed_simps:
  "engine_speed Q (Returns v) = Q (Num (engineRpm (state v)))"
  "engine_speed Q (Throws e v) = Q (Num (engineRpm (state v)))"
  "engine_speed Q (NonFinite r) = Q r"
  by (simp_all add: engine_speed_def engineRpm_after_def)

lemma engine_speed_Let: "engine_speed Q (Let t f) = (let x = t in engine_speed Q (f x))"
  by simp

lemma engine_speed_if:
  "engine_speed Q (if c then a else b) = (if c then engine_speed Q a else engine_speed Q b)"
  by simp

lemma engine_speed_case_option:
  "engine_speed Q (case_option a f opt) =
     (case opt of None \<Rightarrow> engine_speed Q a | Some y \<Rightarrow> engine_speed Q (f y))"
  by (simp split: option.split)

lemma engine_speed_case_sum:
  "engine_speed Q (case_sum f g s) =
     (case s of Inl a \<Rightarrow> engine_speed Q (f a) | Inr b \<Rightarrow> engine_speed Q (g b))"
  by (simp split: sum.split)

lemmas engine_speed_push =
  engine_speed_simps engine_speed_Let engine_speed_if engine_speed_case_option
  engine_speed_case_sum

lemma Let_body_cong: "M = N \<Longrightarrow> (\<And>x. f x = g x) \<Longrightarrow> Let M f = Let N g"
  by simp

lemma Let_unused: "Let t (\<lambda>x. c) = c"
  by simp

lemma Let_any_real: "(\<And>x::real. B x) \<Longrightarrow> Let t B"
  by simp

subsection \<open>The automatic gearbox\<close>

lemma updateAutomaticGear_frame:
  "tuning (updateAutomaticGear v) = tuning v"
  "manualMode (updateAutomaticGear v) = manualMode v"
  "driftAssist (updateAutomaticGear v) = driftAssist v"
  "tractionAssist (updateAutomaticGear v) = tractionAssist v"
  "maxSteerAngle (updateAutomaticGear v) = maxSteerAngle v"
  "handbrakeGripLoss (updateAutomaticGear v) = handbrakeGripLoss v"
  "terrain (updateAutomaticGear v) = terrain v"
  "car (updateAutomaticGear v) = car v"
  "clutch (updateAutomaticGear v) = clutch v"
  by (simp_all add: updateAutomaticGear_def Let_def)

lemma updateAutomaticGear_state:
  "position (state (updateAutomaticGear v)) = position (state v)"
  "velocity (state (updateAutomaticGear v)) = velocity (state v)"
  "heading (state (updateAutomaticGear v)) = heading (state v)"
  "yawRate (state (updateAutomaticGear v)) = yawRate (state v)"
  "engineRpm (state (updateAutomaticGear v)) = engineRpm (state v)"
  "wheelSpeed (state (updateAutomaticGear v)) = wheelSpeed (state v)"
  "speed (state (updateAutomaticGear v)) = speed (state v)"
  "tireState (state (updateAutomaticGear v)) = tireState (state v)"
  by (simp_all add: updateAutomaticGear_def Let_def)

lemma updateAutomaticGear_gear:
  "gear (state (updateAutomaticGear v)) =
     (if engineRpm (state v) > 6500 \<and> gear (state v) < int (length (gearRatios (tuning v)))
      then gear (state v) + 1
      else if engineRpm (state v) < 2200 \<and> gear (state v) > 1 then gear (state v) - 1
      else gear (state v))"
  by (simp add: updateAutomaticGear_def Let_def)

lemmas updateAutomaticGear_fields = updateAutomaticGear_frame updateAutomaticGear_state

lemma gearRatio_undefined_iff:
  "nullish (array_get xs i) (array_get xs 0) = None \<longleftrightarrow> xs = []"
  by (auto simp: nullish_def array_get_def split: option.splits)

lemma torqueAtRpm_throws_iff:
  "torqueAtRpm v rpm = Inl e \<longleftrightarrow> torqueCurve (car v) = []"
  by (cases e) (auto simp: torqueAtRpm_def split: list.splits)

subsection \<open>What a step leaves behind\<close>

lemma update_same_setup: "post (same_setup v) (same_setup v) (update dt input v)"
  supply TrueI [simproc del: let_simp]
  apply (simp add: update_def post_push Let_unused same_setup_def
      split del: if_split
      cong: Let_body_cong if_cong option.case_cong sum.case_cong)
  apply (intro Let_any_real)
  apply (simp split: option.split)
  apply (intro allI impI Let_any_real)
  apply (simp add: Let_def updateAutomaticGear_fields split: sum.split)
  done

lemma update_shifted: "post (shifted v) (shifted v) (update dt input v)"
  supply TrueI [simproc del: let_simp]
  apply (simp add: update_def post_push Let_unused shifted_def
      split del: if_split
      cong: Let_body_cong if_cong option.case_cong sum.case_cong)
  apply (intro Let_any_real)
  apply (simp split: option.split)
  apply (intro allI impI Let_any_real)
  apply (simp add: Let_def updateAutomaticGear_fields updateAutomaticGear_gear
      split: sum.split split del: if_split)
  apply (auto simp: updateAutomaticGear_fields updateAutomaticGear_gear)
  done

lemma update_returns:
  "finite_step v \<Longrightarrow> torqueCurve (car v) \<noteq> [] \<Longrightarrow> returns (update dt input v)"
  supply TrueI [simproc del: let_simp]
  apply (simp add: update_def returns_push Let_unused finite_step_def
      split del: if_split
      cong: Let_body_cong if_cong option.case_cong sum.case_cong)
  apply (simp add: Let_def updateAutomaticGear_fields gearRatio_undefined_iff
      torqueAtRpm_throws_iff split: option.split sum.split)
  done

lemma m3_finite_step: "finite_step (new_Vehicle m3 (defaultTuning m3))"
  by (simp add: finite_step_def new_Vehicle_def defaultTuning_def m3_def)

lemma m3_torqueCurve: "torqueCurve (car (new_Vehicle m3 (defaultTuning m3))) \<noteq> []"
  by (simp add: new_Vehicle_def m3_def)

section \<open>Properties of the vehicle\<close>

subsection \<open>The engine speed a step leaves\<close>

lemma rev_clamp_js:
  "js_max (Num 1000) (js_min (Num 7200) r) = NaN
   \<or> js_between 1000 7200 (js_max (Num 1000) (js_min (Num 7200) r))"
  by (cases r) (simp_all add: js_between_def)

lemma engineRpm_js_cases:
  "engineRpm_js a b d = NaN \<or> js_between 1000 7200 (engineRpm_js a b d)"
  by (simp add: engineRpm_js_def Let_def revLimiter_def rev_clamp_js)

lemma js_mul_NaN: "js_mul w NaN = NaN"
  by (cases w) simp_all

lemma engineRpm_js_NaN: "engineRpm_js a b NaN = NaN"
  by (simp add: engineRpm_js_def Let_def js_mul_NaN)

lemma no_gearRatio: "nullish (array_get [] i) (array_get [] j) = None"
  by (simp add: nullish_def array_get_def)

lemma update_engine_speed_no_gears:
  "gearRatios (tuning v) = [] \<Longrightarrow> engineRpm_after (update dt input v) = NaN"
proof -
  assume "gearRatios (tuning v) = []"
  then have "engine_speed (\<lambda>r. r = NaN) (update dt input v)"
    supply TrueI [simproc del: let_simp]
    by (simp add: update_def engine_speed_push Let_unused no_gearRatio engineRpm_js_NaN
        split del: if_split
        cong: Let_body_cong if_cong option.case_cong sum.case_cong)
  then show ?thesis
    by (simp add: engine_speed_def)
qed

lemma update_engine_speed_no_radius_at_rest:
  "engineRpm_after (update dt input (new_Vehicle (m3\<lparr>wheelRadiusM := 0\<rparr>) (defaultTuning m3)))
     = NaN"
proof -
  have "engine_speed (\<lambda>r. r = NaN)
          (update dt input (new_Vehicle (m3\<lparr>wheelRadiusM := 0\<rparr>) (defaultTuning m3)))"
    supply TrueI [simproc del: let_simp]
    apply (simp add: update_def engine_speed_push Let_unused new_Vehicle_def defaultTuning_def
        m3_def initial_state_def
        split del: if_split
        cong: Let_body_cong if_cong option.case_cong sum.case_cong)
    apply (simp add: Let_def nullish_def array_get_def engineRpm_js_def js_div_def)
    done
  then show ?thesis
    by (simp add: engine_speed_def)
qed

lemma update_engine_speed_range:
  "gearRatios (tuning v) \<noteq> [] \<Longrightarrow> wheelRadiusM (car v) \<noteq> 0
   \<Longrightarrow> js_between 1000 7200 (engineRpm_after (update dt input v))"
proof -
  assume "gearRatios (tuning v) \<noteq> []" and "wheelRadiusM (car v) \<noteq> 0"
  then have "engine_speed (js_between 1000 7200) (update dt input v)"
    supply TrueI [simproc del: let_simp]
    apply (simp add: update_def engine_speed_push Let_unused js_between_def
        split del: if_split
        cong: Let_body_cong if_cong option.case_cong sum.case_cong)
    apply (simp add: Let_def updateAutomaticGear_fields gearRatio_undefined_iff revLimiter_def
        split: option.split sum.split)
    done
  then show ?thesis
    by (simp add: engine_speed_def)
qed

lemma update_engine_speed_cases:
  "engineRpm_after (update dt input v) = NaN
   \<or> js_between 1000 7200 (engineRpm_after (update dt input v))"
proof (cases "gearRatios (tuning v) = []")
  case True
  then show ?thesis by (simp add: update_engine_speed_no_gears)
next
  case False
  have "engine_speed (\<lambda>r. r = NaN \<or> js_between 1000 7200 r) (update dt input v)"
    supply TrueI [simproc del: let_simp]
    apply (simp add: update_def engine_speed_push Let_unused engineRpm_js_cases
        split del: if_split
        cong: Let_body_cong if_cong option.case_cong sum.case_cong)
    apply (intro Let_any_real)
    apply (simp split: option.split)
    apply (intro allI impI Let_any_real)
    apply (simp add: Let_def updateAutomaticGear_fields revLimiter_def js_between_def
        split: sum.split)
    done
  then show ?thesis
    by (simp add: engine_speed_def)
qed

text \<open>
  C1, as the code has it. After a call of \<open>update\<close>, with any time step and any input, the
  engine speed of the vehicle is \<^verbatim>\<open>NaN\<close> or lies between 1000 and the rev limiter 7200.
  It lies between 1000 and 7200 whenever there is a gear ratio and the wheel radius is not
  zero; it is \<^verbatim>\<open>NaN\<close> whenever the list of gear ratios is empty. (All this for a call that
  returns and for one that throws.)
\<close>

theorem update_engineRpm_in_range:
  "(engineRpm_after (update dt input v) = NaN
      \<or> js_between 1000 7200 (engineRpm_after (update dt input v)))
   \<and> (gearRatios (tuning v) \<noteq> [] \<and> wheelRadiusM (car v) \<noteq> 0
        \<longrightarrow> js_between 1000 7200 (engineRpm_after (update dt input v)))
   \<and> (gearRatios (tuning v) = [] \<longrightarrow> engineRpm_after (update dt input v) = NaN)"
  using update_engine_speed_cases [of dt input v] update_engine_speed_range [of v dt input]
    update_engine_speed_no_gears [of v dt input]
  by blast

theorem update_engineRpm_in_range_witness:
  "js_between 1000 7200
     (engineRpm_after (update 0.016 \<lparr>throttle = 1, brake = 0, steer = 0, handbrake = 0\<rparr>
                         (new_Vehicle m3 (defaultTuning m3))))
   \<and> (\<exists>v'. update 0.016 \<lparr>throttle = 1, brake = 0, steer = 0, handbrake = 0\<rparr>
                (new_Vehicle m3 (defaultTuning m3)) = Returns v'
          \<and> 1000 \<le> engineRpm (state v') \<and> engineRpm (state v') \<le> 7200)
   \<and> engineRpm_after (update 0.016 \<lparr>throttle = 1, brake = 0, steer = 0, handbrake = 0\<rparr>
                         (new_Vehicle m3 ((defaultTuning m3)\<lparr>gearRatios := []\<rparr>))) = NaN"
proof -
  let ?input = "\<lparr>throttle = 1, brake = 0, steer = 0, handbrake = 0\<rparr>"
  let ?v = "new_Vehicle m3 (defaultTuning m3)"
  let ?w = "new_Vehicle m3 ((defaultTuning m3)\<lparr>gearRatios := []\<rparr>)"
  have "gearRatios (tuning ?v) \<noteq> []" and "wheelRadiusM (car ?v) \<noteq> 0"
    by (simp_all add: new_Vehicle_def defaultTuning_def m3_def)
  with update_engineRpm_in_range [of "0.016" ?input ?v]
  have range: "js_between 1000 7200 (engineRpm_after (update 0.016 ?input ?v))"
    by blast
  obtain v' where v': "update 0.016 ?input ?v = Returns v'"
    using returns_Returns [OF update_returns [OF m3_finite_step m3_torqueCurve]] by blast
  with range have "1000 \<le> engineRpm (state v') \<and> engineRpm (state v') \<le> 7200"
    by (simp add: engineRpm_after_def js_between_def)
  moreover have "gearRatios (tuning ?w) = []"
    by (simp add: new_Vehicle_def)
  with update_engineRpm_in_range [of "0.016" ?input ?w]
  have "engineRpm_after (update 0.016 ?input ?w) = NaN"
    by blast
  ultimately show ?thesis
    using range v' by blast
qed

text \<open>
  C1, as stated, fails for a vehicle without gear ratios: the gear ratio read is
  \<^verbatim>\<open>undefined\<close>, the drive ratio \<^verbatim>\<open>undefined * finalDrive\<close> is \<^verbatim>\<open>NaN\<close>, and
  \<^verbatim>\<open>Math.max(1000, Math.min(7200, NaN))\<close> is \<^verbatim>\<open>NaN\<close>: the call leaves an engine speed
  that is not between 1000 and 7200. It fails as well for a car with wheel radius zero at
  rest, where the wheel speed is \<^verbatim>\<open>0 / 0\<close>.
\<close>

theorem update_engineRpm_counterexample:
  "engineRpm_after (update 0.016 \<lparr>throttle = 1, brake = 0, steer = 0, handbrake = 0\<rparr>
                      (new_Vehicle m3 ((defaultTuning m3)\<lparr>gearRatios := []\<rparr>))) = NaN
   \<and> \<not> js_between 1000 7200
         (engineRpm_after (update 0.016 \<lparr>throttle = 1, brake = 0, steer = 0, handbrake = 0\<rparr>
                             (new_Vehicle m3 ((defaultTuning m3)\<lparr>gearRatios := []\<rparr>))))
   \<and> \<not> js_between 1000 7200
         (engineRpm_after (update 0.016 \<lparr>throttle = 1, brake = 0, steer = 0, handbrake = 0\<rparr>
                             (new_Vehicle (m3\<lparr>wheelRadiusM := 0\<rparr>) (defaultTuning m3))))"
proof -
  have "gearRatios (tuning (new_Vehicle m3 ((defaultTuning m3)\<lparr>gearRatios := []\<rparr>))) = []"
    by (simp add: new_Vehicle_def)
  from update_engine_speed_no_gears [OF this] update_engine_speed_no_radius_at_rest
  show ?thesis
    by (simp add: js_between_def)
qed



text \<open>
  C10. A call of \<open>update\<close> changes only the state of the vehicle and its clutch value: the
  car, the tuning, the terrain, \<open>manualMode\<close>, \<open>driftAssist\<close>, \<open>tractionAssist\<close>,
  \<open>maxSteerAngle\<close> and \<open>handbrakeGripLoss\<close> are as before the call.
\<close>

theorem update_changes_state_and_clutch_only:
  assumes "vehicle_of (update dt input v) = Some v'"
  shows "car v' = car v \<and> tuning v' = tuning v \<and> terrain v' = terrain v
         \<and> manualMode v' = manualMode v \<and> driftAssist v' = driftAssist v
         \<and> tractionAssist v' = tractionAssist v \<and> maxSteerAngle v' = maxSteerAngle v
         \<and> handbrakeGripLoss v' = handbrakeGripLoss v
         \<and> v' = v\<lparr>state := state v', clutch := clutch v'\<rparr>"
proof -
  have "same_setup v v'"
    using update_same_setup assms by (rule post_vehicle_of)
  then show ?thesis
    by (simp add: same_setup_def)
qed

theorem update_changes_state_and_clutch_only_witness:
  "\<exists>v'. vehicle_of (update 0.016 \<lparr>throttle = 1, brake = 0, steer = 1, handbrake = 1\<rparr>
                       (new_Vehicle m3 (defaultTuning m3))) = Some v'
        \<and> car v' = m3 \<and> tuning v' = defaultTuning m3 \<and> terrain v' = asphalt
        \<and> \<not> manualMode v'"
proof -
  obtain v' where v':
    "vehicle_of (update 0.016 \<lparr>throttle = 1, brake = 0, steer = 1, handbrake = 1\<rparr>
                   (new_Vehicle m3 (defaultTuning m3))) = Some v'"
    using returns_vehicle_of [OF update_returns [OF m3_finite_step m3_torqueCurve]] by blast
  from update_changes_state_and_clutch_only [OF v'] v' show ?thesis
    by (auto simp: new_Vehicle_def)
qed

subsection \<open>The gear over a sequence of calls\<close>

lemma shiftUp_gear_in_range: "gear_in_range v \<Longrightarrow> gear_in_range (shiftUp v)"
  by (simp add: gear_in_range_def shiftUp_def Let_def)

lemma shiftDown_gear_in_range: "gear_in_range v \<Longrightarrow> gear_in_range (shiftDown v)"
  by (simp add: gear_in_range_def shiftDown_def)

lemma update_gear_in_range:
  assumes "gear_in_range v" and "vehicle_of (update dt input v) = Some v'"
  shows "gear_in_range v'"
proof -
  have "shifted v v'"
    using update_shifted assms(2) by (rule post_vehicle_of)
  moreover have "same_setup v v'"
    using update_same_setup assms(2) by (rule post_vehicle_of)
  ultimately show ?thesis
    using assms(1) by (auto simp: shifted_def same_setup_def gear_in_range_def split: if_splits)
qed

lemma perform_gear_in_range:
  assumes "gear_in_range v \<and> tuning v = t" and "vehicle_of (perform c v) = Some v'"
  shows "gear_in_range v' \<and> tuning v' = t"
proof (cases c)
  case (Update dt input)
  with assms(2) have step: "vehicle_of (update dt input v) = Some v'" by simp
  have "same_setup v v'"
    using update_same_setup step by (rule post_vehicle_of)
  with assms(1) update_gear_in_range [OF _ step] show ?thesis
    by (simp add: same_setup_def)
next
  case ShiftUp
  with assms show ?thesis
    by (auto simp: vehicle_of_def shiftUp_gear_in_range) (simp add: shiftUp_def Let_def)
next
  case ShiftDown
  with assms show ?thesis
    by (auto simp: vehicle_of_def shiftDown_gear_in_range) (simp add: shiftDown_def)
qed

lemma run_gear_in_range:
  "gear_in_range v \<and> tuning v = t \<Longrightarrow> vehicle_of (run cs v) = Some v'
   \<Longrightarrow> gear_in_range v' \<and> tuning v' = t"
proof (induction cs arbitrary: v)
  case Nil
  then show ?case by (simp add: vehicle_of_def)
next
  case (Cons c cs)
  show ?case
  proof (cases "perform c v")
    case (Returns v1)
    then have "gear_in_range v1 \<and> tuning v1 = t"
      using perform_gear_in_range [OF Cons.prems(1), of c v1] by (simp add: vehicle_of_def)
    with Cons.IH [of v1] Cons.prems(2) Returns show ?thesis by simp
  next
    case (Throws e v1)
    then have "gear_in_range v1 \<and> tuning v1 = t"
      using perform_gear_in_range [OF Cons.prems(1), of c v1] by (simp add: vehicle_of_def)
    with Cons.prems(2) Throws show ?thesis by (simp add: vehicle_of_def)
  next
    case (NonFinite r)
    with Cons.prems(2) show ?thesis by (simp add: vehicle_of_def)
  qed
qed

lemma shiftUp_setup:
  "finite_step (shiftUp v) = finite_step v" "car (shiftUp v) = car v"
  by (simp_all add: shiftUp_def finite_step_def Let_def)

lemma shiftDown_setup:
  "finite_step (shiftDown v) = finite_step v" "car (shiftDown v) = car v"
  by (simp_all add: shiftDown_def finite_step_def)

lemma update_setup:
  assumes "update dt input v = Returns v'"
  shows "finite_step v' = finite_step v" "car v' = car v"
proof -
  have "same_setup v v'"
    using update_same_setup [of v dt input] by (simp add: assms post_def)
  then show "finite_step v' = finite_step v" "car v' = car v"
    by (simp_all add: same_setup_def finite_step_def)
qed

lemma run_returns:
  "finite_step v \<Longrightarrow> torqueCurve (car v) \<noteq> [] \<Longrightarrow> returns (run cs v)"
proof (induction cs arbitrary: v)
  case Nil
  then show ?case by (simp add: returns_def)
next
  case (Cons c cs)
  show ?case
  proof (cases c)
    case (Update dt input)
    obtain v1 where v1: "update dt input v = Returns v1"
      using returns_Returns [OF update_returns [OF Cons.prems]] by blast
    with Cons.IH [of v1] Cons.prems update_setup [OF v1] Update show ?thesis by simp
  next
    case ShiftUp
    with Cons.IH [of "shiftUp v"] Cons.prems show ?thesis by (simp add: shiftUp_setup)
  next
    case ShiftDown
    with Cons.IH [of "shiftDown v"] Cons.prems show ?thesis by (simp add: shiftDown_setup)
  qed
qed

text \<open>
  C2. With at least one gear ratio and the gear between 1 and the number of gear ratios,
  the gear is still in that range after any sequence of calls of \<open>update\<close>, \<open>shiftUp\<close> and
  \<open>shiftDown\<close>. \<open>shiftUp\<close> changes nothing in the top gear, \<open>shiftDown\<close> changes nothing in
  gear 1, and neither changes anything when \<open>manualMode\<close> is false.
\<close>

theorem gear_stays_in_range:
  "(gearRatios (tuning v) \<noteq> [] \<and> gear_in_range v \<and> vehicle_of (run cs v) = Some v'
      \<longrightarrow> gear_in_range v' \<and> gearRatios (tuning v') = gearRatios (tuning v))
   \<and> (gear (state v) = int (length (gearRatios (tuning v))) \<longrightarrow> shiftUp v = v)
   \<and> (gear (state v) = 1 \<longrightarrow> shiftDown v = v)
   \<and> (\<not> manualMode v \<longrightarrow> shiftUp v = v \<and> shiftDown v = v)"
proof (intro conjI impI)
  assume "gearRatios (tuning v) \<noteq> [] \<and> gear_in_range v \<and> vehicle_of (run cs v) = Some v'"
  then have "gear_in_range v' \<and> tuning v' = tuning v"
    using run_gear_in_range [of v "tuning v" cs v'] by simp
  then show "gear_in_range v'" and "gearRatios (tuning v') = gearRatios (tuning v)"
    by simp_all
next
  assume "gear (state v) = int (length (gearRatios (tuning v)))"
  then show "shiftUp v = v" by (simp add: shiftUp_def Let_def)
next
  assume "gear (state v) = 1"
  then show "shiftDown v = v" by (simp add: shiftDown_def)
next
  assume "\<not> manualMode v"
  then show "shiftUp v = v" and "shiftDown v = v"
    by (simp_all add: shiftUp_def shiftDown_def)
qed

theorem gear_stays_in_range_witness:
  "(\<exists>v'. vehicle_of
           (run [Update 0.016 \<lparr>throttle = 1, brake = 0, steer = 0, handbrake = 0\<rparr>,
                 ShiftUp, ShiftUp, ShiftDown,
                 Update 0.016 \<lparr>throttle = 0, brake = 1, steer = 1, handbrake = 1\<rparr>]
              ((new_Vehicle m3 (defaultTuning m3))\<lparr>manualMode := True\<rparr>)) = Some v'
         \<and> gear_in_range v')
   \<and> shiftUp ((new_Vehicle m3 (defaultTuning m3))
               \<lparr>state := initial_state\<lparr>gear := 6\<rparr>, manualMode := True\<rparr>)
       = (new_Vehicle m3 (defaultTuning m3))\<lparr>state := initial_state\<lparr>gear := 6\<rparr>, manualMode := True\<rparr>
   \<and> shiftDown ((new_Vehicle m3 (defaultTuning m3))\<lparr>manualMode := True\<rparr>)
       = (new_Vehicle m3 (defaultTuning m3))\<lparr>manualMode := True\<rparr>
   \<and> shiftUp (new_Vehicle m3 (defaultTuning m3)) = new_Vehicle m3 (defaultTuning m3)
   \<and> shiftDown (new_Vehicle m3 (defaultTuning m3)) = new_Vehicle m3 (defaultTuning m3)"
proof -
  let ?v0 = "new_Vehicle m3 (defaultTuning m3)"
  let ?man = "?v0\<lparr>manualMode := True\<rparr>"
  let ?top = "?v0\<lparr>state := initial_state\<lparr>gear := 6\<rparr>, manualMode := True\<rparr>"
  let ?cs = "[Update 0.016 \<lparr>throttle = 1, brake = 0, steer = 0, handbrake = 0\<rparr>,
              ShiftUp, ShiftUp, ShiftDown,
              Update 0.016 \<lparr>throttle = 0, brake = 1, steer = 1, handbrake = 1\<rparr>]"
  have ratios: "gearRatios (tuning ?man) \<noteq> []"
    by (simp add: new_Vehicle_def defaultTuning_def m3_def)
  have range: "gear_in_range ?man"
    by (simp add: gear_in_range_def new_Vehicle_def defaultTuning_def m3_def initial_state_def)
  have "finite_step ?man" and "torqueCurve (car ?man) \<noteq> []"
    by (simp_all add: finite_step_def new_Vehicle_def defaultTuning_def m3_def)
  then obtain v' where v': "vehicle_of (run ?cs ?man) = Some v'"
    using returns_vehicle_of [OF run_returns] by blast
  have "gear_in_range v'"
    using gear_stays_in_range [of ?man ?cs v'] ratios range v' by blast
  moreover have "shiftUp ?top = ?top"
    using gear_stays_in_range [of ?top]
    by (simp add: new_Vehicle_def defaultTuning_def m3_def initial_state_def)
  moreover have "shiftDown ?man = ?man"
    using gear_stays_in_range [of ?man]
    by (simp add: new_Vehicle_def initial_state_def)
  moreover have "shiftUp ?v0 = ?v0" and "shiftDown ?v0 = ?v0"
    using gear_stays_in_range [of ?v0] by (simp_all add: new_Vehicle_def)
  ultimately show ?thesis
    using v' by blast
qed

subsection \<open>Clamping of the input\<close>

lemma clamp_idem: "max (- 1) (min 1 (max (- 1) (min 1 (s::real)))) = max (- 1) (min 1 s)"
  by (simp add: min_def max_def)

lemma handbrake_clamp:
  "(0 < max 0 (min 1 (h::real))) = (0 < h)"
  "(1 < max 0 (min 1 (h::real)) * 5) = (1 < h * 5)"
  by (auto simp: min_def max_def)

lemma update_slipRatio_braking:
  "throttle input = 0 \<Longrightarrow>
   post (\<lambda>v'. slipRatio (tireState (state v')) =
          - (brakeStrength (tuning v) * brake input * 12000)
            / max 4000 (massKg (car v) * (1 - weightReduction (tuning v) * 0.08) * 3))
        (\<lambda>v'. True) (update dt input v)"
  supply TrueI [simproc del: let_simp]
  apply (simp add: update_def post_push Let_unused
      split del: if_split
      cong: Let_body_cong if_cong option.case_cong sum.case_cong)
  apply (simp add: Let_def updateAutomaticGear_fields split: option.split sum.split)
  done

text \<open>
  C3, as the code has it. \<open>update\<close> clamps the steering input to \<open>[-1, 1]\<close>, and it reads the
  handbrake input only to compare it with 0 and with 0.2, so that a call gives the same
  completion as the call with the steering and the handbrake clamped to their ranges.
  Throttle and brake are used as they are passed.
\<close>

theorem update_clamps_steer_and_handbrake:
  "update dt input v =
     update dt (input\<lparr>steer := clamp (- 1) 1 (steer input),
                      handbrake := clamp 0 1 (handbrake input)\<rparr>) v"
  supply TrueI [simproc del: let_simp]
  by (simp add: update_def clamp_def clamp_idem handbrake_clamp
      split del: if_split
      cong: Let_body_cong if_cong option.case_cong sum.case_cong)

lemma update_slipRatio_m3_at_rest:
  "post (\<lambda>v'. slipRatio (tireState (state v')) = 240 * (3.8 * 3.42) / 0.33 * th / 5160)
        (\<lambda>v'. True)
        (update dt \<lparr>throttle = th, brake = 0, steer = 0, handbrake = 0\<rparr>
           (new_Vehicle m3 (defaultTuning m3)))"
  supply TrueI [simproc del: let_simp]
  apply (simp add: update_def post_push Let_unused new_Vehicle_def defaultTuning_def m3_def
      initial_state_def
      split del: if_split
      cong: Let_body_cong if_cong option.case_cong sum.case_cong)
  apply (simp add: Let_def updateAutomaticGear_def torqueAtRpm_def nullish_def array_get_def
      revLimiter_def)
  done

text \<open>
  C3, as stated, fails for the brake and for the throttle. On the M3 at rest, braking with
  input 2 does not give the state that braking with the clamped input 1 gives (the slip
  ratios are \<open>- 24000 / 5160\<close> and \<open>- 12000 / 5160\<close>), and throttle 2 does not give the
  state that the clamped throttle 1 gives (the drive force, and with it the slip ratio, is
  twice as large).
\<close>

theorem update_clamps_every_input_counterexample:
  "update 0.016 \<lparr>throttle = 0, brake = 2, steer = 0, handbrake = 0\<rparr>
     (new_Vehicle m3 (defaultTuning m3))
   \<noteq> update 0.016 (spec_clampInput \<lparr>throttle = 0, brake = 2, steer = 0, handbrake = 0\<rparr>)
       (new_Vehicle m3 (defaultTuning m3))
   \<and> update 0.016 \<lparr>throttle = 2, brake = 0, steer = 0, handbrake = 0\<rparr>
       (new_Vehicle m3 (defaultTuning m3))
     \<noteq> update 0.016 (spec_clampInput \<lparr>throttle = 2, brake = 0, steer = 0, handbrake = 0\<rparr>)
         (new_Vehicle m3 (defaultTuning m3))"
proof
  let ?v = "new_Vehicle m3 (defaultTuning m3)"
  let ?a = "\<lparr>throttle = 0, brake = 2, steer = 0, handbrake = 0\<rparr>"
  show "update 0.016 ?a ?v \<noteq> update 0.016 (spec_clampInput ?a) ?v"
  proof
    assume eq: "update 0.016 ?a ?v = update 0.016 (spec_clampInput ?a) ?v"
    obtain v' where v': "update 0.016 ?a ?v = Returns v'"
      using returns_Returns [OF update_returns [OF m3_finite_step m3_torqueCurve]] by blast
    have "slipRatio (tireState (state v')) = - (24000 / 5160)"
      using post_Returns [OF update_slipRatio_braking v']
      by (simp add: new_Vehicle_def defaultTuning_def m3_def)
    moreover have "slipRatio (tireState (state v')) = - (12000 / 5160)"
      using post_Returns [OF update_slipRatio_braking v' [unfolded eq]]
      by (simp add: spec_clampInput_def clamp_def new_Vehicle_def defaultTuning_def m3_def)
    ultimately show False by simp
  qed
next
  let ?v = "new_Vehicle m3 (defaultTuning m3)"
  let ?b = "\<lparr>throttle = 2, brake = 0, steer = 0, handbrake = 0\<rparr>"
  have clamped: "spec_clampInput ?b = \<lparr>throttle = 1, brake = 0, steer = 0, handbrake = 0\<rparr>"
    by (simp add: spec_clampInput_def clamp_def)
  show "update 0.016 ?b ?v \<noteq> update 0.016 (spec_clampInput ?b) ?v"
  proof
    assume eq: "update 0.016 ?b ?v = update 0.016 (spec_clampInput ?b) ?v"
    obtain v' where v': "update 0.016 ?b ?v = Returns v'"
      using returns_Returns [OF update_returns [OF m3_finite_step m3_torqueCurve]] by blast
    have "slipRatio (tireState (state v')) = 240 * (3.8 * 3.42) / 0.33 * 2 / 5160"
      using post_Returns [OF update_slipRatio_m3_at_rest v'] .
    moreover have "slipRatio (tireState (state v')) = 240 * (3.8 * 3.42) / 0.33 * 1 / 5160"
      using post_Returns [OF update_slipRatio_m3_at_rest v' [unfolded eq clamped]] .
    ultimately show False by simp
  qed
qed

subsection \<open>Reset\<close>

lemma reset_state:
  "state (reset positionX positionZ v) =
     initial_state\<lparr>position := \<lparr>coord_x = positionX, coord_z = positionZ\<rparr>,
                   tireState := tireState (state v)\<rparr>"
  by (simp add: reset_def initial_state_def)

text \<open>
  C9 at a vehicle that has skidded. \<open>reset\<close> assigns the position, velocity, heading, yaw
  rate, engine speed, gear, wheel speed and speed, and leaves the tire state (and the
  clutch value) as they are: after \<open>reset 0 0\<close> the tire state is the skidding one, and the
  state is not the state of a new vehicle.
\<close>

theorem reset_leaves_tireState:
  "tireState (state (reset 0 0
      ((new_Vehicle m3 (defaultTuning m3))
         \<lparr>state := initial_state
            \<lparr>tireState := \<lparr>slipAngle = 0.3, slipRatio = 0.5, combinedSlip = 0.8,
                            gripFactor = 0.7\<rparr>\<rparr>\<rparr>)))
     = \<lparr>slipAngle = 0.3, slipRatio = 0.5, combinedSlip = 0.8, gripFactor = 0.7\<rparr>
   \<and> state (reset 0 0
      ((new_Vehicle m3 (defaultTuning m3))
         \<lparr>state := initial_state
            \<lparr>tireState := \<lparr>slipAngle = 0.3, slipRatio = 0.5, combinedSlip = 0.8,
                            gripFactor = 0.7\<rparr>\<rparr>\<rparr>))
     \<noteq> state (new_Vehicle m3 (defaultTuning m3))
   \<and> tireState (state (reset positionX positionZ v)) = tireState (state v)
   \<and> clutch (reset positionX positionZ v) = clutch v"
  by (simp add: reset_def new_Vehicle_def initial_state_def initial_tireState_def)

section \<open>Properties of the torque curve\<close>

lemma torque_scan_past_end:
  "\<forall>q \<in> set rest. fst q < rpm \<Longrightarrow> torque_scan rpm p rest = snd (last (p # rest))"
proof (induction rest arbitrary: p)
  case Nil
  then show ?case by (cases p) simp
next
  case (Cons q rest)
  then show ?case by (cases p; cases q) simp
qed

lemma sorted_fst_hd_le:
  fixes p :: "real \<times> real"
  assumes "sorted_wrt (<) (map fst (p # rest))" and "k < length (p # rest)"
  shows "fst p \<le> fst ((p # rest) ! k)"
proof (cases k)
  case 0
  then show ?thesis by simp
next
  case (Suc n)
  with assms(2) have "rest ! n \<in> set rest" by simp
  with assms(1) have "fst p < fst (rest ! n)" by auto
  with Suc show ?thesis by simp
qed

lemma torque_scan_between:
  assumes "sorted_wrt (<) (map fst (p # rest))"
    and "Suc i < length (p # rest)"
    and "fst ((p # rest) ! i) < rpm"
    and "rpm \<le> fst ((p # rest) ! Suc i)"
  shows "torque_scan rpm p rest =
           snd ((p # rest) ! i)
           + (snd ((p # rest) ! Suc i) - snd ((p # rest) ! i))
             * ((rpm - fst ((p # rest) ! i)) / (fst ((p # rest) ! Suc i) - fst ((p # rest) ! i)))"
  using assms
proof (induction rest arbitrary: p i)
  case Nil
  then show ?case by simp
next
  case (Cons q rest)
  show ?case
  proof (cases i)
    case 0
    with Cons.prems show ?thesis by (cases p; cases q) (simp add: Let_def)
  next
    case (Suc j)
    have "fst q \<le> fst ((q # rest) ! j)"
      using sorted_fst_hd_le [of q rest j] Cons.prems(1,2) Suc by simp
    with Cons.prems(3) Suc have "fst q < rpm" by simp
    moreover have "torque_scan rpm q rest =
        snd ((q # rest) ! j)
        + (snd ((q # rest) ! Suc j) - snd ((q # rest) ! j))
          * ((rpm - fst ((q # rest) ! j)) / (fst ((q # rest) ! Suc j) - fst ((q # rest) ! j)))"
      using Cons.IH [of q j] Cons.prems Suc by simp
    ultimately show ?thesis
      using Suc by (cases p; cases q) simp
  qed
qed

lemma sorted_fst_below_last:
  fixes p :: "real \<times> real"
  shows "sorted_wrt (<) (map fst (p # rest)) \<Longrightarrow> q \<in> set (p # rest)
   \<Longrightarrow> fst q \<le> fst (last (p # rest))"
proof (induction rest arbitrary: p q)
  case Nil
  then show ?case by simp
next
  case (Cons a rest)
  have below: "fst x \<le> fst (last (a # rest))" if "x \<in> set (a # rest)" for x
    using Cons.IH [of a x] Cons.prems(1) that by simp
  have "fst p < fst a"
    using Cons.prems(1) by simp
  with below [of a] have head: "fst p \<le> fst (last (a # rest))" by simp
  show ?case
  proof (cases "q = p")
    case True
    with head show ?thesis by simp
  next
    case False
    with Cons.prems(2) have "q \<in> set (a # rest)" by simp
    from below [OF this] show ?thesis by simp
  qed
qed

text \<open>
  C4. For a torque curve with at least one point and strictly increasing engine speeds:
  at or below the first point \<open>torqueAtRpm\<close> is the torque of the first point; at or above
  the last point it is the torque of the last point; strictly between two consecutive
  points it is the linear interpolation of their torques; and at a point of the curve it is
  the torque of that point.
\<close>

theorem torqueAtRpm_piecewise_linear:
  assumes "torqueCurve (car v) \<noteq> []"
    and "sorted_wrt (<) (map fst (torqueCurve (car v)))"
  shows "(rpm \<le> fst (hd (torqueCurve (car v)))
            \<longrightarrow> torqueAtRpm v rpm = Inr (snd (hd (torqueCurve (car v)))))
       \<and> (fst (last (torqueCurve (car v))) \<le> rpm
            \<longrightarrow> torqueAtRpm v rpm = Inr (snd (last (torqueCurve (car v)))))
       \<and> (Suc i < length (torqueCurve (car v))
            \<and> fst (torqueCurve (car v) ! i) < rpm \<and> rpm < fst (torqueCurve (car v) ! Suc i)
            \<longrightarrow> torqueAtRpm v rpm =
                  Inr (snd (torqueCurve (car v) ! i)
                       + (snd (torqueCurve (car v) ! Suc i) - snd (torqueCurve (car v) ! i))
                         * ((rpm - fst (torqueCurve (car v) ! i))
                            / (fst (torqueCurve (car v) ! Suc i) - fst (torqueCurve (car v) ! i)))))
       \<and> (k < length (torqueCurve (car v))
            \<longrightarrow> torqueAtRpm v (fst (torqueCurve (car v) ! k)) = Inr (snd (torqueCurve (car v) ! k)))"
proof -
  obtain p rest where curve: "torqueCurve (car v) = p # rest"
    using assms(1) by (cases "torqueCurve (car v)") auto
  obtain r0 t0 where p: "p = (r0, t0)" by (cases p)
  have sorted: "sorted_wrt (<) (map fst (p # rest))"
    using assms(2) curve by simp
  have at: "torqueAtRpm v x = (if x \<le> r0 then Inr t0 else Inr (torque_scan x p rest))" for x
    by (simp add: torqueAtRpm_def curve p)
  have first: "torqueAtRpm v rpm = Inr (snd (hd (torqueCurve (car v))))" if "rpm \<le> fst (hd (torqueCurve (car v)))"
    using that by (simp add: at curve p)
  have between: "torqueAtRpm v x =
      Inr (snd ((p # rest) ! j)
           + (snd ((p # rest) ! Suc j) - snd ((p # rest) ! j))
             * ((x - fst ((p # rest) ! j)) / (fst ((p # rest) ! Suc j) - fst ((p # rest) ! j))))"
    if "Suc j < length (p # rest)" "fst ((p # rest) ! j) < x" "x \<le> fst ((p # rest) ! Suc j)"
    for x j
  proof -
    have "r0 \<le> fst ((p # rest) ! j)"
      using sorted_fst_hd_le [OF sorted, of j] that(1) p by simp
    with that(2) have "\<not> x \<le> r0" by simp
    then show ?thesis
      using torque_scan_between [OF sorted that] by (simp add: at)
  qed
  have exact: "torqueAtRpm v (fst ((p # rest) ! j)) = Inr (snd ((p # rest) ! j))"
    if "j < length (p # rest)" for j
  proof (cases j)
    case 0
    then show ?thesis by (simp add: at p)
  next
    case (Suc m)
    have "map fst (p # rest) ! m < map fst (p # rest) ! Suc m"
      using sorted_wrt_nth_less [OF sorted, of m "Suc m"] that Suc by simp
    then have "fst ((p # rest) ! m) < fst ((p # rest) ! Suc m)"
      using that Suc by (simp only: nth_map length_map Suc_lessD)
    then show ?thesis
      using between [of m "fst ((p # rest) ! Suc m)"] that Suc by simp
  qed
  have last: "torqueAtRpm v rpm = Inr (snd (last (torqueCurve (car v))))"
    if "fst (last (torqueCurve (car v))) \<le> rpm"
  proof (cases "fst (last (p # rest)) = rpm")
    case True
    obtain j where j: "j < length (p # rest)" "(p # rest) ! j = last (p # rest)"
      by (metis last_conv_nth length_greater_0_conv list.distinct(1) diff_less zero_less_one)
    with exact [of j] True show ?thesis by (simp add: curve)
  next
    case False
    with that curve have above: "fst (last (p # rest)) < rpm" by simp
    have "\<forall>q \<in> set (p # rest). fst q < rpm"
      using sorted_fst_below_last [OF sorted] above by fastforce
    then have "torque_scan rpm p rest = snd (last (p # rest))" and "\<not> rpm \<le> r0"
      using torque_scan_past_end [of rest rpm p] p by auto
    then show ?thesis by (simp add: at curve)
  qed
  show ?thesis
    using first last between [of i rpm] exact [of k] by (simp add: curve)
qed

theorem torqueAtRpm_piecewise_linear_witness:
  "torqueAtRpm (new_Vehicle m3 (defaultTuning m3)) 500 = Inr 240
   \<and> torqueAtRpm (new_Vehicle m3 (defaultTuning m3)) 8000 = Inr 430
   \<and> torqueAtRpm (new_Vehicle m3 (defaultTuning m3)) 2750 = Inr 370
   \<and> torqueAtRpm (new_Vehicle m3 (defaultTuning m3)) 3500 = Inr 410"
proof -
  let ?v = "new_Vehicle m3 (defaultTuning m3)"
  have curve: "torqueCurve (car ?v)
      = [(1000, 240), (2000, 330), (3500, 410), (5500, 500), (7000, 430)]"
    by (simp add: new_Vehicle_def m3_def)
  have nonempty: "torqueCurve (car ?v) \<noteq> []"
    and increasing: "sorted_wrt (<) (map fst (torqueCurve (car ?v)))"
    by (simp_all add: curve)
  have "torqueAtRpm ?v 500 = Inr 240"
    using torqueAtRpm_piecewise_linear [OF nonempty increasing, of 500] by (simp add: curve)
  moreover have "torqueAtRpm ?v 8000 = Inr 430"
    using torqueAtRpm_piecewise_linear [OF nonempty increasing, of 8000] by (simp add: curve)
  moreover have "torqueAtRpm ?v 2750 = Inr 370"
    using torqueAtRpm_piecewise_linear [OF nonempty increasing, of 2750 1] by (simp add: curve)
  moreover have "torqueAtRpm ?v 3500 = Inr 410"
    using torqueAtRpm_piecewise_linear [OF nonempty increasing, of _ _ 2] by (simp add: curve)
  ultimately show ?thesis by simp
qed

section \<open>Properties of the route sampler\<close>

lemma sample_step_tracked:
  assumes "distances_tracked s"
  shows "distances_tracked (sample_step node s)"
    and "length (distances (samples (sample_step node s))) = Suc (length (distances (samples s)))"
proof -
  let ?n = "length (distances (samples s))"
  let ?f = "\<lambda>k. 20 * real (Suc k)"
  have d: "distances (samples (sample_step node s)) = distances (samples s) @ [cur_total s + 20]"
    and t: "cur_total (sample_step node s) = cur_total s + 20"
    by (simp_all add: sample_step_def Let_def)
  have old: "distances (samples s) = map ?f [0..<?n]" and total: "cur_total s = 20 * real ?n"
    using assms unfolding distances_tracked_def by blast+
  show len: "length (distances (samples (sample_step node s))) = Suc ?n"
    by (simp add: d)
  have "distances (samples s) @ [cur_total s + 20] = map ?f [0..<?n] @ [?f ?n]"
    by (subst old) (simp add: total algebra_simps)
  also have "\<dots> = map ?f [0..<Suc ?n]"
    by simp
  finally have new: "distances (samples (sample_step node s)) = map ?f [0..<Suc ?n]"
    by (simp only: d)
  show "distances_tracked (sample_step node s)"
    unfolding distances_tracked_def
  proof (intro conjI)
    show "distances (samples (sample_step node s))
        = map ?f [0..<length (distances (samples (sample_step node s)))]"
      by (subst len) (rule new)
    show "cur_total (sample_step node s)
        = 20 * real (length (distances (samples (sample_step node s))))"
      by (subst len) (simp add: t total)
  qed
qed

lemma sample_for_tracked:
  "distances_tracked s \<Longrightarrow>
     distances_tracked (sample_for i steps node s)
     \<and> length (distances (samples (sample_for i steps node s)))
         = length (distances (samples s)) + nat (steps - i)"
proof (induction i steps node s rule: sample_for.induct)
  case (1 i steps node s)
  show ?case
  proof (cases "i < steps")
    case True
    have step: "distances_tracked (sample_step node s)"
      and len: "length (distances (samples (sample_step node s)))
                 = Suc (length (distances (samples s)))"
      using sample_step_tracked [OF "1.prems"] by simp_all
    have "nat (steps - i) = Suc (nat (steps - (i + 1)))"
      using True by simp
    with "1.IH" [OF True step] len True show ?thesis
      by (subst (1 2) sample_for.simps) simp
  next
    case False
    with "1.prems" show ?thesis
      by (subst (1 2) sample_for.simps) simp
  qed
qed

lemma foldl_sample_node_tracked:
  "distances_tracked s \<Longrightarrow>
     distances_tracked (foldl sample_node s ns)
     \<and> length (distances (samples (foldl sample_node s ns)))
         = length (distances (samples s)) + sample_count ns"
proof (induction ns arbitrary: s)
  case Nil
  then show ?case by (simp add: sample_count_def)
next
  case (Cons n ns)
  have "distances_tracked (sample_node s n)"
    and "length (distances (samples (sample_node s n)))
          = length (distances (samples s)) + nat \<lfloor>segment_length (segment n) / 20\<rfloor>"
    using sample_for_tracked [OF Cons.prems, of 0 "\<lfloor>segment_length (segment n) / 20\<rfloor>" n]
    by (simp_all add: sample_node_def)
  with Cons.IH [of "sample_node s n"] show ?case
    by (simp add: sample_count_def)
qed

lemma distances_closed_form:
  "distances (buildRouteSamples ns) = map (\<lambda>k. 20 * real (Suc k)) [0..<sample_count ns]"
proof -
  let ?init = "\<lparr>cur_x = 0, cur_y = 0, cur_z = 0, cur_heading = 0, cur_total = 0,
              samples = \<lparr>points = [], widths = [], terrainTypes = [], distances = []\<rparr>\<rparr>"
  let ?final = "foldl sample_node ?init ns"
  have "distances_tracked ?init"
    by (simp add: distances_tracked_def)
  from foldl_sample_node_tracked [OF this, of ns]
  have tracked: "distances_tracked ?final"
    and len: "length (distances (samples ?final)) = sample_count ns"
    by simp_all
  have "distances (samples ?final)
      = map (\<lambda>k. 20 * real (Suc k)) [0..<length (distances (samples ?final))]"
    using tracked unfolding distances_tracked_def by (rule conjunct1)
  then have "distances (samples ?final) = map (\<lambda>k. 20 * real (Suc k)) [0..<sample_count ns]"
    by (simp only: len)
  then show ?thesis
    by (simp only: buildRouteSamples_def)
qed

lemma sample_count_nonnegative_lengths:
  "\<forall>n \<in> set ns. 0 \<le> segment_length (segment n)
   \<Longrightarrow> 20 * real (sample_count ns) = spec_final_distance ns"
  by (induction ns) (simp_all add: sample_count_def spec_final_distance_def algebra_simps)

text \<open>
  C6, as the code has it. For every node list the distances are \<open>20, 40, 60, ...\<close>, one for
  each sample: strictly increasing, the first is 20, each is the one before plus 20, and
  the last (when there is a sample) is 20 times the number of samples, where a node gives
  \<open>floor (length / 20)\<close> samples if that is positive and none otherwise. When no segment
  length is negative this is the sum of \<open>floor (length / 20) * 20\<close> over the nodes.
\<close>

theorem buildRouteSamples_distances:
  "distances (buildRouteSamples ns) = map (\<lambda>k. 20 * real (Suc k)) [0..<sample_count ns]
   \<and> sorted_wrt (<) (distances (buildRouteSamples ns))
   \<and> (distances (buildRouteSamples ns) \<noteq> [] \<longrightarrow>
        hd (distances (buildRouteSamples ns)) = 20
        \<and> last (distances (buildRouteSamples ns)) = 20 * real (sample_count ns))
   \<and> (Suc i < length (distances (buildRouteSamples ns)) \<longrightarrow>
        distances (buildRouteSamples ns) ! Suc i = distances (buildRouteSamples ns) ! i + 20)
   \<and> ((\<forall>n \<in> set ns. 0 \<le> segment_length (segment n)) \<longrightarrow>
        20 * real (sample_count ns) = spec_final_distance ns)"
proof -
  let ?N = "sample_count ns"
  let ?f = "\<lambda>k. 20 * real (Suc k)"
  have closed: "distances (buildRouteSamples ns) = map ?f [0..<?N]"
    by (rule distances_closed_form)
  have increasing: "sorted_wrt (<) (map ?f [0..<?N])"
    unfolding sorted_wrt_map
    by (rule sorted_wrt_mono_rel [OF _ sorted_wrt_upt]) simp
  have ends: "hd (map ?f [0..<?N]) = 20 \<and> last (map ?f [0..<?N]) = 20 * real ?N"
    if "map ?f [0..<?N] \<noteq> []"
  proof -
    from that have pos: "0 < ?N" by simp
    then have "hd (map ?f [0..<?N]) = 20"
      by (simp add: hd_map)
    moreover have "last (map ?f [0..<?N]) = 20 * real ?N"
      using pos by (simp add: last_map)
    ultimately show ?thesis by simp
  qed
  have step: "map ?f [0..<?N] ! Suc i = map ?f [0..<?N] ! i + 20"
    if "Suc i < length (map ?f [0..<?N])"
    using that by simp
  show ?thesis
    unfolding closed
    using increasing ends step sample_count_nonnegative_lengths [of ns] by blast
qed

theorem buildRouteSamples_distances_witness:
  "distances (buildRouteSamples [stage5_node ''s5llll'' 0, stage5_node ''s5llrl'' 2]) \<noteq> []
   \<and> hd (distances (buildRouteSamples [stage5_node ''s5llll'' 0, stage5_node ''s5llrl'' 2])) = 20
   \<and> last (distances (buildRouteSamples [stage5_node ''s5llll'' 0, stage5_node ''s5llrl'' 2])) = 1260
   \<and> distances (buildRouteSamples [stage5_node ''s5llll'' 0, stage5_node ''s5llrl'' 2]) ! Suc 0
       = distances (buildRouteSamples [stage5_node ''s5llll'' 0, stage5_node ''s5llrl'' 2]) ! 0 + 20
   \<and> spec_final_distance [stage5_node ''s5llll'' 0, stage5_node ''s5llrl'' 2] = 1260"
proof -
  let ?ns = "[stage5_node ''s5llll'' 0, stage5_node ''s5llrl'' 2]"
  have count: "sample_count ?ns = 63"
    by (simp add: sample_count_def stage5_node_def)
  have lengths: "\<forall>n \<in> set ?ns. 0 \<le> segment_length (segment n)"
    by (simp add: stage5_node_def)
  have closed: "distances (buildRouteSamples ?ns)
      = map (\<lambda>k. 20 * real (Suc k)) [0..<sample_count ?ns]"
    using buildRouteSamples_distances [of ?ns] by blast
  have nonempty: "distances (buildRouteSamples ?ns) \<noteq> []"
    by (simp add: closed count)
  have two: "Suc 0 < length (distances (buildRouteSamples ?ns))"
    by (simp add: closed count)
  have "hd (distances (buildRouteSamples ?ns)) = 20"
    and "last (distances (buildRouteSamples ?ns)) = 20 * real (sample_count ?ns)"
    using buildRouteSamples_distances [of ?ns] nonempty by blast+
  moreover have "distances (buildRouteSamples ?ns) ! Suc 0
      = distances (buildRouteSamples ?ns) ! 0 + 20"
    using buildRouteSamples_distances [of ?ns 0] two by blast
  moreover have "20 * real (sample_count ?ns) = spec_final_distance ?ns"
    using buildRouteSamples_distances [of ?ns] lengths by blast
  ultimately show ?thesis
    using nonempty by (simp add: count)
qed

text \<open>
  C6, as stated, fails for a segment of negative length: it gives no sample, but
  \<open>floor (length / 20) * 20\<close> is negative. For segments of 40 and - 40 meters the distances
  are 20 and 40, and the sum of the specification is 0.
\<close>

theorem buildRouteSamples_final_distance_counterexample:
  "distances (buildRouteSamples [straight_node 40, straight_node (- 40)]) = [20, 40]
   \<and> spec_final_distance [straight_node 40, straight_node (- 40)] = 0
   \<and> last (distances (buildRouteSamples [straight_node 40, straight_node (- 40)]))
       \<noteq> spec_final_distance [straight_node 40, straight_node (- 40)]"
proof -
  have count: "sample_count [straight_node 40, straight_node (- 40)] = 2"
    by (simp add: sample_count_def straight_node_def)
  have "[0..<2] = [0, Suc 0]"
    by (simp add: upt_rec)
  then have "distances (buildRouteSamples [straight_node 40, straight_node (- 40)]) = [20, 40]"
    by (simp add: distances_closed_form count)
  moreover have "spec_final_distance [straight_node 40, straight_node (- 40)] = 0"
    by (simp add: spec_final_distance_def straight_node_def)
  ultimately show ?thesis by simp
qed

section \<open>Properties of the default path\<close>

lemma buildRoutePath_loop_inner:
  assumes "ROUTE_GRAPH k = Some n" and "k \<noteq> []" and "destination n = None"
  shows "buildRoutePath_loop (Some k) ns tot =
           buildRoutePath_loop (nullish (left n) (right n)) (ns @ [n])
             (tot + segment_length (segment n))"
  by (subst buildRoutePath_loop.simps) (simp add: assms truthy_def Let_def)

lemma buildRoutePath_loop_leaf:
  assumes "ROUTE_GRAPH k = Some n" and "k \<noteq> []" and "destination n = Some d" and "d \<noteq> []"
  shows "buildRoutePath_loop (Some k) ns tot =
           Some (Inr \<lparr>nodes = ns @ [n], totalLength = tot + segment_length (segment n),
                      path_destination = d\<rparr>)"
  by (subst buildRoutePath_loop.simps) (simp add: assms truthy_def Let_def)

lemma ROUTE_GRAPH_default_path:
  "ROUTE_GRAPH ''s1'' = Some
     \<lparr>node_id = ''s1'', stage = 1,
      segment = \<lparr>segment_id = ''s1'', segment_length = 900, curvature = 0.001,
        slope = 0.002, width = 10, scenery = 0.7, segment_terrain = asphalt\<rparr>,
      left = Some ''s2l'', right = Some ''s2r'', destination = None\<rparr>"
  "ROUTE_GRAPH ''s2l'' = Some
     \<lparr>node_id = ''s2l'', stage = 2,
      segment = \<lparr>segment_id = ''s2l'', segment_length = 850, curvature = - 0.0022,
        slope = 0.004, width = 9, scenery = 0.9, segment_terrain = wet\<rparr>,
      left = Some ''s3ll'', right = Some ''s3lr'', destination = None\<rparr>"
  "ROUTE_GRAPH ''s3ll'' = Some
     \<lparr>node_id = ''s3ll'', stage = 3,
      segment = \<lparr>segment_id = ''s3ll'', segment_length = 780, curvature = 0.0032,
        slope = 0.006, width = 8.5, scenery = 0.95, segment_terrain = wet\<rparr>,
      left = Some ''s4lll'', right = Some ''s4llr'', destination = None\<rparr>"
  "ROUTE_GRAPH ''s4lll'' = Some
     \<lparr>node_id = ''s4lll'', stage = 4,
      segment = \<lparr>segment_id = ''s4lll'', segment_length = 720, curvature = 0.0035,
        slope = 0.006, width = 8, scenery = 1, segment_terrain = wet\<rparr>,
      left = Some ''s5llll'', right = Some ''s5lllr'', destination = None\<rparr>"
  "ROUTE_GRAPH ''s5llll'' = Some (stage5_node ''s5llll'' 0)"
  by (simp_all add: ROUTE_GRAPH_def ROUTE_GRAPH_literal_def stage5Nodes_def)

text \<open>
  C5. \<open>buildRoutePath ''s1''\<close> on the route graph of the game returns a path of five
  nodes, one for each stage from 1 to 5, each the left child of the one before; its total
  length is the sum of the five segment lengths (3900); its destination is \<open>A\<close>, one of
  the five destinations.
\<close>

theorem buildRoutePath_s1:
  "\<exists>p. buildRoutePath ''s1'' = Some (Inr p)
      \<and> length (nodes p) = 5
      \<and> map node_id (nodes p) = [''s1'', ''s2l'', ''s3ll'', ''s4lll'', ''s5llll'']
      \<and> map stage (nodes p) = [1, 2, 3, 4, 5]
      \<and> map left (butlast (nodes p)) = map (\<lambda>n. Some (node_id n)) (tl (nodes p))
      \<and> map (\<lambda>n. ROUTE_GRAPH (node_id n)) (nodes p) = map Some (nodes p)
      \<and> totalLength p = (\<Sum>n\<leftarrow>nodes p. segment_length (segment n))
      \<and> totalLength p = 3900
      \<and> path_destination p = ''A''
      \<and> path_destination p \<in> set DESTINATIONS"
proof -
  note g = ROUTE_GRAPH_default_path
  have leaf: "destination (stage5_node ''s5llll'' 0) = Some ''A''"
    by (simp add: stage5_node_def DESTINATIONS_def)
  have "buildRoutePath ''s1'' =
      buildRoutePath_loop (Some ''s2l'') [the (ROUTE_GRAPH ''s1'')] 900"
    unfolding buildRoutePath_def
    by (subst buildRoutePath_loop_inner [OF g(1)]) (simp_all add: nullish_def g)
  also have "\<dots> = buildRoutePath_loop (Some ''s3ll'')
      [the (ROUTE_GRAPH ''s1''), the (ROUTE_GRAPH ''s2l'')] 1750"
    by (subst buildRoutePath_loop_inner [OF g(2)]) (simp_all add: nullish_def g)
  also have "\<dots> = buildRoutePath_loop (Some ''s4lll'')
      [the (ROUTE_GRAPH ''s1''), the (ROUTE_GRAPH ''s2l''), the (ROUTE_GRAPH ''s3ll'')] 2530"
    by (subst buildRoutePath_loop_inner [OF g(3)]) (simp_all add: nullish_def g)
  also have "\<dots> = buildRoutePath_loop (Some ''s5llll'')
      [the (ROUTE_GRAPH ''s1''), the (ROUTE_GRAPH ''s2l''), the (ROUTE_GRAPH ''s3ll''),
       the (ROUTE_GRAPH ''s4lll'')] 3250"
    by (subst buildRoutePath_loop_inner [OF g(4)]) (simp_all add: nullish_def g)
  also have "\<dots> = Some (Inr
      \<lparr>nodes = [the (ROUTE_GRAPH ''s1''), the (ROUTE_GRAPH ''s2l''), the (ROUTE_GRAPH ''s3ll''),
                the (ROUTE_GRAPH ''s4lll''), the (ROUTE_GRAPH ''s5llll'')],
       totalLength = 3900, path_destination = ''A''\<rparr>)"
    by (subst buildRoutePath_loop_leaf [OF g(5) _ leaf]) (simp_all add: g stage5_node_def)
  finally show ?thesis
    by (simp add: g stage5_node_def DESTINATIONS_def)
qed

end
